theory Spec2Isabelle
  imports Main
begin

section \<open>Python strings and exceptions\<close>

text \<open>
  A Python \<open>str\<close> is modelled as a \<open>string\<close>; a character stands for a code point
  below 256.  The exceptions the scanners can raise are values of \<open>py_error\<close>.
\<close>

datatype py_error =
    IndexError | AttributeError | KeyError
  | OSError | FileNotFoundError | NotADirectoryError | PermissionError | UnicodeDecodeError

definition nl :: char where
  "nl = CHR 0x0A"

definition bsl :: char where
  "bsl = CHR 0x5C"

text \<open>\<open>str.isspace\<close> on one character, restricted to code points below 256.\<close>

definition isspace :: "char \<Rightarrow> bool" where
  "isspace c = (c \<in> set [CHR 0x09, CHR 0x0A, CHR 0x0B, CHR 0x0C, CHR 0x0D,
                            CHR 0x1C, CHR 0x1D, CHR 0x1E, CHR 0x1F, CHR 0x20,
                            CHR 0x85, CHR 0xA0])"

text \<open>\<open>str.strip()\<close>: whitespace removed at both ends.\<close>

definition strip :: "string \<Rightarrow> string" where
  "strip s = rev (dropWhile isspace (rev (dropWhile isspace s)))"

text \<open>\<open>sep.join(xs)\<close>.\<close>

fun join :: "string \<Rightarrow> string list \<Rightarrow> string" where
  "join sep [] = []"
| "join sep [x] = x"
| "join sep (x # y # ys) = x @ sep @ join sep (y # ys)"

text \<open>\<open>sub in s\<close> on strings.\<close>

fun contains :: "string \<Rightarrow> string \<Rightarrow> bool" where
  "contains [] sub = (sub = [])"
| "contains (c # s) sub = (take (length sub) (c # s) = sub \<or> contains s sub)"

text \<open>\<open>xs[i]\<close> with Python's negative indices; out of range raises \<open>IndexError\<close>.\<close>

definition getitem :: "'a list \<Rightarrow> int \<Rightarrow> py_error + 'a" where
  "getitem xs i =
     (if 0 \<le> i \<and> i < int (length xs) then Inr (xs ! nat i)
      else if i < 0 \<and> - int (length xs) \<le> i then Inr (xs ! nat (int (length xs) + i))
      else Inl IndexError)"

text \<open>\<open>enumerate(xs, start=n)\<close>.\<close>

fun enumerate_from :: "int \<Rightarrow> 'a list \<Rightarrow> (int \<times> 'a) list" where
  "enumerate_from n [] = []"
| "enumerate_from n (x # xs) = (n, x) # enumerate_from (n + 1) xs"

section \<open>Regular expressions\<close>

text \<open>
  The fragment of Python's \<open>re\<close> syntax the scanners use: character classes,
  greedy \<open>*\<close> and \<open>+\<close> over a class, greedy \<open>?\<close> over a non-capturing group,
  capturing groups, \<open>^\<close> and \<open>$\<close>.  \<open>re_run\<close> lists the ways a pattern can
  match at the front of the input in the order the backtracking matcher tries them, so
  the head of the list is the match \<open>re.match\<close> returns.
\<close>

datatype atom = Dot | Whitespace | Range char char | Lit char

fun atom_matches :: "atom \<Rightarrow> char \<Rightarrow> bool" where
  "atom_matches Dot c = (c \<noteq> nl)"
| "atom_matches Whitespace c = isspace c"
| "atom_matches (Range a b) c = ((of_char a :: nat) \<le> of_char c \<and> (of_char c :: nat) \<le> of_char b)"
| "atom_matches (Lit a) c = (c = a)"

definition in_class :: "atom list \<Rightarrow> char \<Rightarrow> bool" where
  "in_class cls c = list_ex (\<lambda>a. atom_matches a c) cls"

datatype regex =
    Eps
  | Bol
  | Eol
  | One "atom list"
  | Star "atom list"
  | Plus "atom list"
  | Opt regex
  | Group nat regex
  | Seq regex regex

text \<open>The remainders a greedy \<open>cls*\<close> can leave, longest match first.\<close>

fun star_rests :: "atom list \<Rightarrow> string \<Rightarrow> string list" where
  "star_rests cls [] = [[]]"
| "star_rests cls (c # s) =
     (if in_class cls c then star_rests cls s @ [c # s] else [c # s])"

type_synonym captures = "(nat \<times> string) list"

fun re_run :: "regex \<Rightarrow> nat \<Rightarrow> string \<times> captures \<Rightarrow> (string \<times> captures) list" where
  "re_run Eps n (s, g) = [(s, g)]"
| "re_run Bol n (s, g) = (if length s = n then [(s, g)] else [])"
| "re_run Eol n (s, g) = (if s = [] \<or> s = [nl] then [(s, g)] else [])"
| "re_run (One cls) n (s, g) =
     (case s of [] \<Rightarrow> [] | c # t \<Rightarrow> if in_class cls c then [(t, g)] else [])"
| "re_run (Star cls) n (s, g) = map (\<lambda>t. (t, g)) (star_rests cls s)"
| "re_run (Plus cls) n (s, g) =
     (case s of [] \<Rightarrow> []
      | c # t \<Rightarrow> if in_class cls c then map (\<lambda>t. (t, g)) (star_rests cls t) else [])"
| "re_run (Opt r) n (s, g) = re_run r n (s, g) @ [(s, g)]"
| "re_run (Group i r) n (s, g) =
     map (\<lambda>(t, g'). (t, (i, take (length s - length t) s) # g')) (re_run r n (s, g))"
| "re_run (Seq a b) n (s, g) = concat (map (re_run b n) (re_run a n (s, g)))"

text \<open>A literal string, and a sequence of pieces.\<close>

fun lit :: "string \<Rightarrow> regex" where
  "lit [] = Eps"
| "lit (c # s) = Seq (One [Lit c]) (lit s)"

fun seqs :: "regex list \<Rightarrow> regex" where
  "seqs [] = Eps"
| "seqs (r # rs) = Seq r (seqs rs)"

fun ngroups :: "regex \<Rightarrow> nat" where
  "ngroups (Opt r) = ngroups r"
| "ngroups (Group i r) = Suc (ngroups r)"
| "ngroups (Seq a b) = ngroups a + ngroups b"
| "ngroups _ = 0"

text \<open>
  A compiled pattern keeps its source text (\<open>match.re.pattern\<close>); a match object
  keeps the pattern and what each group captured.
\<close>

record pattern =
  source :: string
  prog :: regex

record match =
  re :: pattern
  captured :: captures

definition re_match :: "pattern \<Rightarrow> string \<Rightarrow> match option" where
  "re_match p s =
     (case re_run (prog p) (length s) (s, []) of
        [] \<Rightarrow> None
      | (t, g) # _ \<Rightarrow> Some \<lparr>re = p, captured = g\<rparr>)"

text \<open>
  \<open>match.group(i)\<close> for \<open>i \<ge> 1\<close>: \<open>IndexError\<close> when the pattern has no such
  group, \<open>None\<close> when the group took no part in the match.
\<close>

definition group :: "match \<Rightarrow> nat \<Rightarrow> py_error + string option" where
  "group m i =
     (if ngroups (prog (re m)) < i then Inl IndexError else Inr (map_of (captured m) i))"


section \<open>Effects\<close>

text \<open>
  What a run does besides computing: the calls on the logger, the lines printed, the
  directory created and the rows written to the report file, in program order.  A
  computation ends by returning, by \<open>sys.exit\<close> or by an uncaught exception.
\<close>

datatype level = DEBUG | INFO | WARNING | ERROR

datatype pyval = PyStr string | PyNone | PyInt int

datatype event =
    Log level string "pyval list"
  | Print string
  | Mkdir string
  | OpenWrite string
  | WriteHeader "string list"
  | WriteRow "(string \<times> pyval) list"

datatype 'a outcome = Return 'a | Exit int | Raise py_error

type_synonym 'a io = "event list \<times> 'a outcome"

definition io_return :: "'a \<Rightarrow> 'a io" where
  "io_return x = ([], Return x)"

definition io_bind :: "'a io \<Rightarrow> ('a \<Rightarrow> 'b io) \<Rightarrow> 'b io" where
  "io_bind m f =
     (case m of
        (ev, Return x) \<Rightarrow> (case f x of (ev', r) \<Rightarrow> (ev @ ev', r))
      | (ev, Exit c) \<Rightarrow> (ev, Exit c)
      | (ev, Raise e) \<Rightarrow> (ev, Raise e))"

definition emit :: "event \<Rightarrow> unit io" where
  "emit e = ([e], Return ())"

definition sys_exit :: "int \<Rightarrow> 'a io" where
  "sys_exit c = ([], Exit c)"

definition io_raise :: "py_error \<Rightarrow> 'a io" where
  "io_raise e = ([], Raise e)"

definition io_of :: "py_error + 'a \<Rightarrow> 'a io" where
  "io_of r = (case r of Inl e \<Rightarrow> io_raise e | Inr x \<Rightarrow> io_return x)"

text \<open>\<open>d[k]\<close> on a dict, kept as an association list in insertion order.\<close>

definition dict_get :: "(string \<times> 'v) list \<Rightarrow> string \<Rightarrow> 'v io" where
  "dict_get d k = (case map_of d k of None \<Rightarrow> io_raise KeyError | Some v \<Rightarrow> io_return v)"

text \<open>\<open>str(n)\<close> for an integer, as f-strings format it.\<close>

definition digit_char :: "nat \<Rightarrow> char" where
  "digit_char d = char_of (48 + d)"

function str_nat :: "nat \<Rightarrow> string" where
  "str_nat n = (if n < 10 then [digit_char n] else str_nat (n div 10) @ [digit_char (n mod 10)])"
  by pat_completeness auto
termination
  by (relation "measure id") auto

declare str_nat.simps [simp del]

definition str_int :: "int \<Rightarrow> string" where
  "str_int i = (if i < 0 then CHR ''-'' # str_nat (nat (- i)) else str_nat (nat i))"

fun format_val :: "pyval \<Rightarrow> string" where
  "format_val (PyStr s) = s"
| "format_val PyNone = ''None''"
| "format_val (PyInt i) = str_int i"

text \<open>\<open>s.split(",")\<close>.\<close>

fun split_on :: "char \<Rightarrow> string \<Rightarrow> string list" where
  "split_on d [] = [[]]"
| "split_on d (c # s) =
     (if c = d then [] # split_on d s
      else (case split_on d s of [] \<Rightarrow> [[c]] | w # ws \<Rightarrow> (c # w) # ws))"

text \<open>
  The file system and \<open>pathlib\<close>, which the scanners only call: whether a path
  exists and is a file; the lines \<open>readlines\<close> returns, or \<open>None\<close> when
  opening or decoding the file fails, and then the exception that is raised
  (\<open>read_error\<close>); whether opening a file for writing and creating a directory
  succeed (\<open>None\<close>) or raise; the result of a recursive glob; and the path functions.
\<close>

record filesystem =
  path_exists :: "string \<Rightarrow> bool"
  path_is_file :: "string \<Rightarrow> bool"
  readlines :: "string \<Rightarrow> string list option"
  read_error :: "string \<Rightarrow> py_error"
  open_write :: "string \<Rightarrow> py_error option"
  mkdir :: "string \<Rightarrow> py_error option"
  glob :: "string \<Rightarrow> string \<Rightarrow> string list"
  suffix :: "string \<Rightarrow> string"
  is_relative_to :: "string \<Rightarrow> string \<Rightarrow> bool"
  resolve :: "string \<Rightarrow> string"
  joinpath :: "string \<Rightarrow> string \<Rightarrow> string"

text \<open>The scanner's loop state: the buffered record, the records closed so far, and
  the debug calls made on the logger.\<close>

record 'i scan =
  ignore :: "'i option"
  ignores :: "'i list"
  debug_log :: "event list"

definition No_reason :: string where
  "No_reason = ''(No reason provided)''"


section \<open>The eslint and ts scanner: \<open>scan_eslint_ignore.py\<close>\<close>

text \<open>
  Both source files define \<open>Ignore\<close>, \<open>get_reason\<close>, \<open>find_ignores\<close>,
  \<open>catch_bad_ignores\<close>, \<open>export\<close> and \<open>main\<close>; the definitions from
  \<open>scan_eslint_ignore.py\<close> carry the prefix \<open>es_\<close>, those from
  \<open>scan_pylint_ignore.py\<close> the prefix \<open>py_\<close>.
\<close>

definition ws :: "atom list" where
  "ws = [Whitespace]"

definition rule_chars :: "atom list" where
  "rule_chars = [Range CHR ''a'' CHR ''z'', Range CHR ''A'' CHR ''Z'', Lit CHR ''@'',
                 Lit CHR ''-'', Lit CHR '','', Whitespace, Lit CHR ''/'']"

definition TS_COMMENT_PATTERN :: pattern where
  "TS_COMMENT_PATTERN =
     \<lparr>source = ''.*//'' @ bsl # ''s*(.+)'',
      prog = seqs [Star [Dot], lit ''//'', Star ws, Group 1 (Plus [Dot])]\<rparr>"

definition ESLINT_IGNORE_ENTIRE_FILE_PATTERN :: pattern where
  "ESLINT_IGNORE_ENTIRE_FILE_PATTERN =
     \<lparr>source = ''^/'' @ bsl # ''*'' @ bsl # ''s*eslint-disable'' @ bsl # ''s*([a-zA-Z@''
                 @ bsl # ''-,'' @ bsl # ''s'' @ bsl # ''/]*)'' @ bsl # ''s*'' @ bsl # ''*/$'',
      prog = seqs [Bol, lit ''/*'', Star ws, lit ''eslint-disable'', Star ws,
                   Group 1 (Star rule_chars), Star ws, lit ''*/'', Eol]\<rparr>"

definition ESLINT_INLINE_IGNORE_PATTERN :: pattern where
  "ESLINT_INLINE_IGNORE_PATTERN =
     \<lparr>source = ''.*//'' @ bsl # ''s*eslint-disable(?:-next)?-line'' @ bsl # ''s*([a-zA-Z@''
                 @ bsl # ''-,'' @ bsl # ''s'' @ bsl # ''/]*)'' @ bsl # ''s*$'',
      prog = seqs [Star [Dot], lit ''//'', Star ws, lit ''eslint-disable'', Opt (lit ''-next''),
                   lit ''-line'', Star ws, Group 1 (Star rule_chars), Star ws, Eol]\<rparr>"

definition TS_INLINE_IGNORE :: pattern where
  "TS_INLINE_IGNORE =
     \<lparr>source = ''^//'' @ bsl # ''s*'' @ bsl # ''@ts-(?:ignore)?(?:expect-error)?'',
      prog = seqs [Bol, lit ''//'', Star ws, lit ''@ts-'', Opt (lit ''ignore''),
                   Opt (lit ''expect-error'')]\<rparr>"

datatype IgnoreType =
    ESLINT_IGNORE_ESLINTIGNORE
  | ESLINT_IGNORE_ENTIRE_FILE
  | ESLINT_IGNORE_SINGLE_LINE
  | TSLINT_IGNORE_SINGLE_LINE

fun IgnoreType_value :: "IgnoreType \<Rightarrow> string" where
  "IgnoreType_value ESLINT_IGNORE_ESLINTIGNORE = ''ignore from .eslintignore''"
| "IgnoreType_value ESLINT_IGNORE_ENTIRE_FILE = ''eslint-ignore (entire file)''"
| "IgnoreType_value ESLINT_IGNORE_SINGLE_LINE = ''eslint-ignore (single line)''"
| "IgnoreType_value TSLINT_IGNORE_SINGLE_LINE = ''ts-ignore (single line)''"

definition SEARCH_IGNORE_TYPE_TUPLES :: "(string \<times> IgnoreType) list" where
  "SEARCH_IGNORE_TYPE_TUPLES =
     [(''/'' @ bsl # ''*'' @ bsl # ''s*eslint-disable'', ESLINT_IGNORE_ENTIRE_FILE),
      (''.*//'' @ bsl # ''s*eslint-disable'', ESLINT_IGNORE_SINGLE_LINE),
      (''@ts-'', TSLINT_IGNORE_SINGLE_LINE)]"

text \<open>
  The dataclass \<open>Ignore\<close>.  \<open>reason\<close> is declared a list, but
  \<open>get_reason_for_ignore_file\<close> can hand the constructor \<open>None\<close>, so the field is
  an option; \<open>end\<close> is written \<open>end_line\<close>.
\<close>

record Ignore =
  filepath :: string
  start :: int
  end_line :: int
  rule :: "string option"
  reason :: "string list option"
  type :: "IgnoreType option"

definition es_keys :: "string list" where
  "es_keys = [''File'', ''Line section'', ''Type'', ''Rule'', ''Reason'']"

text \<open>The property \<open>Ignore.values\<close>; it logs and exits when the record has no type.\<close>

definition es_values :: "Ignore \<Rightarrow> (string \<times> pyval) list io" where
  "es_values self =
     (case type self of
        None \<Rightarrow> io_bind (emit (Log ERROR ''Invalid Ignore.type'' [])) (\<lambda>_. sys_exit 1)
      | Some t \<Rightarrow>
          io_return
            [(''File'', PyStr (filepath self)),
             (''Line section'', PyStr (str_int (start self) @ ''-'' @ str_int (end_line self))),
             (''Type'', PyStr (IgnoreType_value t)),
             (''Rule'', PyStr (case rule self of None \<Rightarrow> ''NA''
                                | Some r \<Rightarrow> if r = [] then ''NA'' else r)),
             (''Reason'', PyStr (case reason self of None \<Rightarrow> No_reason
                                  | Some rs \<Rightarrow> if rs = [] then No_reason else join '' '' rs))])"

definition es_get_reason :: "int \<Rightarrow> string list \<Rightarrow> py_error + string list" where
  "es_get_reason line_number lines =
     (case getitem lines (line_number - 2) of
        Inl e \<Rightarrow> Inl e
      | Inr previous_line \<Rightarrow>
          (case re_match TS_COMMENT_PATTERN previous_line of
             None \<Rightarrow> Inr []
           | Some comment_match \<Rightarrow>
               (case group comment_match 1 of
                  Inl e \<Rightarrow> Inl e
                | Inr None \<Rightarrow> Inl AttributeError
                | Inr (Some g) \<Rightarrow> Inr [strip g])))"

fun get_ignore_type_loop :: "(string \<times> IgnoreType) list \<Rightarrow> match \<Rightarrow> IgnoreType option" where
  "get_ignore_type_loop [] m = None"
| "get_ignore_type_loop ((search_str, result) # rest) m =
     (if contains (source (re m)) search_str then Some result
      else get_ignore_type_loop rest m)"

definition get_ignore_type :: "match \<Rightarrow> IgnoreType option" where
  "get_ignore_type m = get_ignore_type_loop SEARCH_IGNORE_TYPE_TUPLES m"

text \<open>The three directive patterns, tried in the order of the \<open>or\<close> chain.\<close>

definition es_directive :: "string \<Rightarrow> match option" where
  "es_directive line =
     (case re_match ESLINT_IGNORE_ENTIRE_FILE_PATTERN line of
        Some m \<Rightarrow> Some m
      | None \<Rightarrow>
          (case re_match ESLINT_INLINE_IGNORE_PATTERN line of
             Some m \<Rightarrow> Some m
           | None \<Rightarrow> re_match TS_INLINE_IGNORE line))"

text \<open>
  \<open>rule = None; try: rule = rematch.group(1).strip() except IndexError: logger.debug(...)\<close>:
  the rule and the debug call made.
\<close>

definition es_rule :: "match \<Rightarrow> py_error + string option \<times> event list" where
  "es_rule rematch =
     (case group rematch 1 of
        Inl IndexError \<Rightarrow>
          Inr (None, [Log DEBUG ''Unable to retrieve rule matching group: %s''
                        [PyStr ''no such group'']])
      | Inl e \<Rightarrow> Inl e
      | Inr None \<Rightarrow> Inl AttributeError
      | Inr (Some g) \<Rightarrow> Inr (Some (strip g), []))"

text \<open>The body of the \<open>while\<close> loop of \<open>find_ignores\<close> for one numbered line.\<close>

definition es_body ::
  "string \<Rightarrow> string list \<Rightarrow> int \<Rightarrow> string \<Rightarrow> Ignore scan \<Rightarrow> py_error + Ignore scan" where
  "es_body fp lines line_number line0 st =
     (let line = strip line0 in
      case es_directive line of
        Some rematch \<Rightarrow>
          (let closed = (case ignore st of None \<Rightarrow> ignores st | Some ig \<Rightarrow> ignores st @ [ig]) in
           case es_rule rematch of
             Inl e \<Rightarrow> Inl e
           | Inr (r, lg) \<Rightarrow>
               (case es_get_reason line_number lines of
                  Inl e \<Rightarrow> Inl e
                | Inr rs \<Rightarrow>
                    Inr \<lparr>ignore = Some \<lparr>filepath = fp, start = line_number,
                                         end_line = line_number, rule = r, reason = Some rs,
                                         type = get_ignore_type rematch\<rparr>,
                         ignores = closed,
                         debug_log = debug_log st @ lg\<rparr>))
      | None \<Rightarrow>
          (case ignore st of
             Some ig \<Rightarrow> Inr (st\<lparr>ignores := ignores st @ [ig], ignore := None\<rparr>)
           | None \<Rightarrow> Inr st))"

text \<open>The loop: \<open>next(gen)\<close> until \<open>StopIteration\<close>, where the buffered record is
  appended.\<close>

fun es_loop ::
  "string \<Rightarrow> string list \<Rightarrow> (int \<times> string) list \<Rightarrow> Ignore scan \<Rightarrow> py_error + Ignore scan" where
  "es_loop fp lines [] st =
     Inr (case ignore st of None \<Rightarrow> st | Some ig \<Rightarrow> st\<lparr>ignores := ignores st @ [ig]\<rparr>)"
| "es_loop fp lines ((line_number, line) # gen) st =
     (case es_body fp lines line_number line st of
        Inl e \<Rightarrow> Inl e
      | Inr st' \<Rightarrow> es_loop fp lines gen st')"

definition es_find_ignores :: "filesystem \<Rightarrow> string \<Rightarrow> py_error + event list \<times> Ignore list" where
  "es_find_ignores fs fp =
     (case readlines fs fp of
        None \<Rightarrow> Inl (read_error fs fp)
      | Some lines \<Rightarrow>
          (case es_loop fp lines (enumerate_from 1 lines)
                  \<lparr>ignore = None, ignores = [], debug_log = []\<rparr> of
             Inl e \<Rightarrow> Inl e
           | Inr st \<Rightarrow> Inr (debug_log st, ignores st)))"


subsection \<open>The policy gate and the report\<close>

text \<open>The list comprehension of \<open>catch_bad_ignores\<close>.\<close>

fun es_bad_ignores :: "Ignore list \<Rightarrow> Ignore list io" where
  "es_bad_ignores [] = io_return []"
| "es_bad_ignores (ig # rest) =
     io_bind (es_values ig) (\<lambda>v.
     io_bind (dict_get v ''Reason'') (\<lambda>r.
     io_bind (es_bad_ignores rest) (\<lambda>bad.
       io_return (if r = PyStr No_reason then ig # bad else bad))))"

fun es_report :: "(int \<times> Ignore) list \<Rightarrow> unit io" where
  "es_report [] = io_return ()"
| "es_report ((idx, ig) # rest) =
     io_bind (es_values ig) (\<lambda>v.
     io_bind (dict_get v ''File'') (\<lambda>f.
     io_bind (es_values ig) (\<lambda>v'.
     io_bind (dict_get v' ''Line section'') (\<lambda>ls.
     io_bind (emit (Log ERROR ''%d. %s, lines %s'' [PyInt idx, f, ls])) (\<lambda>_.
       es_report rest)))))"

definition es_gate_message :: string where
  "es_gate_message =
     ''ERROR: The following ignores were detected without any reasons for justification. ''
     @ ''Please ensure that a reason is given either in the same comment line, or in comments immediately below the original ignore.''"

definition es_catch_bad_ignores :: "Ignore list \<Rightarrow> unit io" where
  "es_catch_bad_ignores igs =
     io_bind (es_bad_ignores igs) (\<lambda>bad_ignores.
       if bad_ignores = [] then io_return ()
       else
         io_bind (emit (Log ERROR es_gate_message [])) (\<lambda>_.
         io_bind (es_report (enumerate_from 1 bad_ignores)) (\<lambda>_.
           sys_exit 1)))"

fun es_print_all :: "Ignore list \<Rightarrow> unit io" where
  "es_print_all [] = io_return ()"
| "es_print_all (ig # rest) =
     io_bind (es_values ig) (\<lambda>v.
     io_bind (dict_get v ''File'') (\<lambda>x1.
     io_bind (emit (Print (''File: '' @ format_val x1))) (\<lambda>_.
     io_bind (dict_get v ''Line section'') (\<lambda>x2.
     io_bind (emit (Print (''Lines: '' @ format_val x2))) (\<lambda>_.
     io_bind (dict_get v ''Type'') (\<lambda>x3.
     io_bind (emit (Print (''Type: '' @ format_val x3))) (\<lambda>_.
     io_bind (dict_get v ''Rule'') (\<lambda>x4.
     io_bind (emit (Print (''Rule: '' @ format_val x4))) (\<lambda>_.
     io_bind (dict_get v ''Reason'') (\<lambda>x5.
     io_bind (emit (Print (''Reason: '' @ format_val x5))) (\<lambda>_.
     io_bind (emit (Print [])) (\<lambda>_.
       es_print_all rest))))))))))))"

fun es_write_rows :: "Ignore list \<Rightarrow> unit io" where
  "es_write_rows [] = io_return ()"
| "es_write_rows (ig # rest) =
     io_bind (es_values ig) (\<lambda>v.
     io_bind (emit (WriteRow v)) (\<lambda>_.
       es_write_rows rest))"

definition es_export :: "filesystem \<Rightarrow> string option \<Rightarrow> Ignore list \<Rightarrow> unit io" where
  "es_export fs export_dir igs =
     (case export_dir of
        None \<Rightarrow> es_print_all igs
      | Some d \<Rightarrow>
          (case open_write fs (joinpath fs d ''eslint-ignores.csv'') of
             Some e \<Rightarrow> io_raise e
           | None \<Rightarrow>
               io_bind (emit (OpenWrite (joinpath fs d ''eslint-ignores.csv''))) (\<lambda>_.
                 case igs of
                   [] \<Rightarrow> io_raise IndexError
                 | first # _ \<Rightarrow>
                     io_bind (emit (WriteHeader es_keys)) (\<lambda>_. es_write_rows igs))))"

subsection \<open>The ignore-list file\<close>

definition comment_pattern :: pattern where
  "comment_pattern =
     \<lparr>source = ''#'' @ bsl # ''s*(.+)$'',
      prog = seqs [lit ''#'', Star ws, Group 1 (Plus [Dot]), Eol]\<rparr>"

text \<open>
  \<open>get_reason_for_ignore_file\<close>: the function has no \<open>return\<close> on the path where
  the previous line is not a comment, so it returns \<open>None\<close> there.
\<close>

definition get_reason_for_ignore_file ::
  "int \<Rightarrow> string list \<Rightarrow> py_error + string list option" where
  "get_reason_for_ignore_file line_number lines =
     (if line_number < 1 then Inr (Some [])
      else
        (case getitem lines (line_number - 1) of
           Inl e \<Rightarrow> Inl e
         | Inr previous_line \<Rightarrow>
             (case re_match comment_pattern previous_line of
                Some result \<Rightarrow>
                  (case group result 1 of
                     Inl e \<Rightarrow> Inl e
                   | Inr None \<Rightarrow> Inl AttributeError
                   | Inr (Some g) \<Rightarrow> Inr (Some [strip g]))
              | None \<Rightarrow> Inr None)))"

fun scan_eslint_ignore_loop ::
  "string list \<Rightarrow> (int \<times> string) list \<Rightarrow> Ignore list \<Rightarrow> py_error + Ignore list" where
  "scan_eslint_ignore_loop lines [] igs = Inr igs"
| "scan_eslint_ignore_loop lines ((line_number, line) # rest) igs =
     (if re_match comment_pattern line \<noteq> None \<or> line = [] then
        scan_eslint_ignore_loop lines rest igs
      else
        (case get_reason_for_ignore_file line_number lines of
           Inl e \<Rightarrow> Inl e
         | Inr rs \<Rightarrow>
             scan_eslint_ignore_loop lines rest
               (igs @ [\<lparr>filepath = line, start = line_number + 1, end_line = line_number + 1,
                        rule = None, reason = rs,
                        type = Some ESLINT_IGNORE_ESLINTIGNORE\<rparr>])))"

definition scan_eslint_ignore_file :: "filesystem \<Rightarrow> string \<Rightarrow> py_error + Ignore list" where
  "scan_eslint_ignore_file fs ignore_file_path =
     (if \<not> path_exists fs ignore_file_path then Inr []
      else
        (case readlines fs ignore_file_path of
           None \<Rightarrow> Inl (read_error fs ignore_file_path)
         | Some raw \<Rightarrow>
             (let lines = map strip raw
              in scan_eslint_ignore_loop lines (enumerate_from 0 lines) [])))"

subsection \<open>main\<close>

record es_args =
  es_path :: string
  eslint_ignore_path :: string
  es_output_dir :: "string option"
  file_ext :: string
  es_ignore_dirs :: "string option"
  es_verify :: bool

text \<open>The loop over the globbed files: the records and the file count so far.\<close>

fun es_scan_paths ::
  "filesystem \<Rightarrow> string list \<Rightarrow> string list \<Rightarrow> Ignore list \<times> int \<Rightarrow> (Ignore list \<times> int) io" where
  "es_scan_paths fs ignore_dirs [] acc = io_return acc"
| "es_scan_paths fs ignore_dirs (file # rest) (igs, file_count) =
     (if list_ex (\<lambda>d. is_relative_to fs file d) ignore_dirs then
        es_scan_paths fs ignore_dirs rest (igs, file_count)
      else
        io_bind (io_of (es_find_ignores fs file)) (\<lambda>(lg, found).
        io_bind (lg, Return ()) (\<lambda>_.
          es_scan_paths fs ignore_dirs rest (igs @ found, file_count + 1))))"

definition es_count_message :: string where
  "es_count_message =
     ''WARNING: %d instance%s of ignores were detected across %d file%s, please assess if they are still relevant.''"

definition es_main :: "filesystem \<Rightarrow> es_args \<Rightarrow> unit io" where
  "es_main fs args =
     (let path = es_path args;
          extensions = map strip (split_on CHR '','' (file_ext args));
          export_dir = es_output_dir args;
          ignore_dirs = (case es_ignore_dirs args of
                           None \<Rightarrow> []
                         | Some str \<Rightarrow> map strip (split_on CHR '','' str))
      in
      io_bind (if export_dir = None then
                 emit (Log WARNING
                   ''WARNING: No output directory was specified, issues will be printed in the console.'' [])
               else io_return ()) (\<lambda>_.
      io_bind (case export_dir of
                 None \<Rightarrow> io_return ()
               | Some d \<Rightarrow>
                   if \<not> path_exists fs d then
                     io_bind (emit (Log INFO ''Creating export directory: %s'' [PyStr (resolve fs d)]))
                       (\<lambda>_. case mkdir fs d of
                              Some e \<Rightarrow> io_raise e
                            | None \<Rightarrow> emit (Mkdir d))
                   else io_return ()) (\<lambda>_.
      if \<not> path_exists fs path then
        io_bind (emit (Log ERROR (''ERROR: Specified path '' @ CHR 0x27 # ''%s'' @ CHR 0x27 # '' does not exist'')
                         [PyStr (resolve fs path)]))
          (\<lambda>_. sys_exit 1)
      else
        io_bind (io_of (scan_eslint_ignore_file fs (eslint_ignore_path args))) (\<lambda>ignores_in_file.
        io_bind (if path_is_file fs path then
                   io_bind (io_of (es_find_ignores fs path)) (\<lambda>(lg, found).
                   io_bind (lg, Return ()) (\<lambda>_.
                     io_return (ignores_in_file @ found, 1)))
                 else
                   es_scan_paths fs ignore_dirs
                     (filter (\<lambda>f. suffix fs f \<in> set extensions) (glob fs path ''**/*''))
                     (ignores_in_file, 0)) (\<lambda>(igs, file_count).
        if igs = [] then
          io_bind (emit (Log INFO ''INFO: No ignores detected.'' [])) (\<lambda>_. sys_exit 0)
        else
          io_bind (emit (Log WARNING es_count_message
                     [PyInt (int (length igs) - int (length ignores_in_file)),
                      PyStr (if length igs = 1 then [] else ''s''),
                      PyInt file_count,
                      PyStr (if file_count = 1 then [] else ''s'')])) (\<lambda>_.
          io_bind (if es_verify args then es_catch_bad_ignores igs else io_return ()) (\<lambda>_.
            es_export fs export_dir igs)))))))"


section \<open>The pylint scanner: \<open>scan_pylint_ignore.py\<close>\<close>

definition issue_chars :: "atom list" where
  "issue_chars = [Range CHR ''a'' CHR ''z'', Range CHR ''A'' CHR ''Z'', Lit CHR ''-'']"

definition PYLINT_IGNORE_PATTERN :: pattern where
  "PYLINT_IGNORE_PATTERN =
     \<lparr>source = ''.*#'' @ bsl # ''s*pylint'' @ bsl # ''s*:'' @ bsl # ''s*disable(?:-next)?''
                 @ bsl # ''s*='' @ bsl # ''s*([a-zA-Z-]+)(?: (.+))?$'',
      prog = seqs [Star [Dot], lit ''#'', Star ws, lit ''pylint'', Star ws, lit '':'', Star ws,
                   lit ''disable'', Opt (lit ''-next''), Star ws, lit ''='', Star ws,
                   Group 1 (Plus issue_chars),
                   Opt (Seq (lit '' '') (Group 2 (Plus [Dot]))), Eol]\<rparr>"

definition PYTHON_COMMENT_PATTERN :: pattern where
  "PYTHON_COMMENT_PATTERN =
     \<lparr>source = ''#'' @ bsl # ''s*(.+)$'',
      prog = seqs [lit ''#'', Star ws, Group 1 (Plus [Dot]), Eol]\<rparr>"

text \<open>The dataclass \<open>Ignore\<close> of the pylint scanner; \<open>issue\<close> holds what
  \<open>rematch.group(1)\<close> returned.\<close>

record PyIgnore =
  py_filepath :: string
  py_start :: int
  py_end :: int
  issue :: "string option"
  py_reason :: "string list"

definition py_keys :: "string list" where
  "py_keys = [''File'', ''Line section'', ''Pylint issue'', ''Reason'']"

definition py_values :: "PyIgnore \<Rightarrow> (string \<times> pyval) list" where
  "py_values self =
     [(''File'', PyStr (py_filepath self)),
      (''Line section'', PyStr (str_int (py_start self) @ ''-'' @ str_int (py_end self))),
      (''Pylint issue'', (case issue self of None \<Rightarrow> PyNone | Some i \<Rightarrow> PyStr i)),
      (''Reason'', PyStr (if py_reason self = [] then No_reason else join '' '' (py_reason self)))]"

definition py_get_reason :: "match \<Rightarrow> int \<Rightarrow> string list \<Rightarrow> py_error + string list" where
  "py_get_reason rematch line_number lines =
     (case getitem lines (line_number - 2) of
        Inl e \<Rightarrow> Inl e
      | Inr previous_line \<Rightarrow>
          (case (case re_match PYTHON_COMMENT_PATTERN previous_line of
                   None \<Rightarrow> Inr []
                 | Some comment_match \<Rightarrow>
                     (case group comment_match 1 of
                        Inl e \<Rightarrow> Inl e
                      | Inr None \<Rightarrow> Inl AttributeError
                      | Inr (Some g) \<Rightarrow> Inr [strip g])) of
             Inl e \<Rightarrow> Inl e
           | Inr reasons \<Rightarrow>
               (case group rematch 2 of
                  Inl e \<Rightarrow> Inl e
                | Inr None \<Rightarrow> Inr reasons
                | Inr (Some r) \<Rightarrow> if r = [] then Inr reasons else Inr (reasons @ [strip r]))))"

text \<open>The body of the \<open>while\<close> loop of \<open>find_ignores\<close> for one numbered line.\<close>

definition py_body ::
  "string \<Rightarrow> string list \<Rightarrow> int \<Rightarrow> string \<Rightarrow> PyIgnore scan \<Rightarrow> py_error + PyIgnore scan" where
  "py_body fp lines line_number line0 st =
     (let line = strip line0 in
      case re_match PYLINT_IGNORE_PATTERN line of
        Some rematch \<Rightarrow>
          (let closed = (case ignore st of None \<Rightarrow> ignores st | Some ig \<Rightarrow> ignores st @ [ig]) in
           case group rematch 1 of
             Inl e \<Rightarrow> Inl e
           | Inr iss \<Rightarrow>
               (case py_get_reason rematch line_number lines of
                  Inl e \<Rightarrow> Inl e
                | Inr rs \<Rightarrow>
                    Inr (st\<lparr>ignore := Some \<lparr>py_filepath = fp, py_start = line_number,
                                             py_end = line_number, issue = iss,
                                             py_reason = rs\<rparr>,
                            ignores := closed\<rparr>)))
      | None \<Rightarrow>
          (case (re_match PYTHON_COMMENT_PATTERN line, ignore st) of
             (Some rematch, Some ig) \<Rightarrow>
               (case group rematch 1 of
                  Inl e \<Rightarrow> Inl e
                | Inr None \<Rightarrow> Inl AttributeError
                | Inr (Some g) \<Rightarrow>
                    Inr (st\<lparr>ignore := Some (ig\<lparr>py_end := line_number,
                                                 py_reason := py_reason ig @ [strip g]\<rparr>)\<rparr>))
           | (_, Some ig) \<Rightarrow> Inr (st\<lparr>ignores := ignores st @ [ig], ignore := None\<rparr>)
           | (_, None) \<Rightarrow> Inr st))"

fun py_loop ::
  "string \<Rightarrow> string list \<Rightarrow> (int \<times> string) list \<Rightarrow> PyIgnore scan \<Rightarrow> py_error + PyIgnore scan" where
  "py_loop fp lines [] st =
     Inr (case ignore st of None \<Rightarrow> st | Some ig \<Rightarrow> st\<lparr>ignores := ignores st @ [ig]\<rparr>)"
| "py_loop fp lines ((line_number, line) # gen) st =
     (case py_body fp lines line_number line st of
        Inl e \<Rightarrow> Inl e
      | Inr st' \<Rightarrow> py_loop fp lines gen st')"

definition py_find_ignores :: "filesystem \<Rightarrow> string \<Rightarrow> py_error + PyIgnore list" where
  "py_find_ignores fs fp =
     (case readlines fs fp of
        None \<Rightarrow> Inl (read_error fs fp)
      | Some lines \<Rightarrow>
          (case py_loop fp lines (enumerate_from 1 lines)
                  \<lparr>ignore = None, ignores = [], debug_log = []\<rparr> of
             Inl e \<Rightarrow> Inl e
           | Inr st \<Rightarrow> Inr (ignores st)))"

subsection \<open>The policy gate and the report\<close>

definition py_gate_message :: string where
  "py_gate_message =
     ''ERROR: The following Pylint ignores were detected without any reasons for justification. ''
     @ ''Please ensure that a reason is given either in the same comment line, or in comments immediately below the original ignore.''"

fun py_bad_ignores :: "PyIgnore list \<Rightarrow> PyIgnore list io" where
  "py_bad_ignores [] = io_return []"
| "py_bad_ignores (ig # rest) =
     io_bind (dict_get (py_values ig) ''Reason'') (\<lambda>r.
     io_bind (py_bad_ignores rest) (\<lambda>bad.
       io_return (if r = PyStr No_reason then ig # bad else bad)))"

fun py_report :: "(int \<times> PyIgnore) list \<Rightarrow> unit io" where
  "py_report [] = io_return ()"
| "py_report ((idx, ig) # rest) =
     io_bind (dict_get (py_values ig) ''File'') (\<lambda>f.
     io_bind (dict_get (py_values ig) ''Line section'') (\<lambda>ls.
     io_bind (emit (Log ERROR ''%d. %s, lines %s'' [PyInt idx, f, ls])) (\<lambda>_.
       py_report rest)))"

definition py_catch_bad_ignores :: "PyIgnore list \<Rightarrow> unit io" where
  "py_catch_bad_ignores igs =
     io_bind (py_bad_ignores igs) (\<lambda>bad_ignores.
       if bad_ignores = [] then io_return ()
       else
         io_bind (emit (Log ERROR py_gate_message [])) (\<lambda>_.
         io_bind (py_report (enumerate_from 1 bad_ignores)) (\<lambda>_.
           sys_exit 1)))"

fun py_print_all :: "PyIgnore list \<Rightarrow> unit io" where
  "py_print_all [] = io_return ()"
| "py_print_all (ig # rest) =
     (let v = py_values ig in
      io_bind (dict_get v ''File'') (\<lambda>x1.
      io_bind (dict_get v ''Line section'') (\<lambda>x2.
      io_bind (emit (Print (''File: '' @ format_val x1 @ '', lines '' @ format_val x2))) (\<lambda>_.
      io_bind (dict_get v ''Pylint issue'') (\<lambda>x3.
      io_bind (emit (Print (''Pylint issue: '' @ format_val x3))) (\<lambda>_.
      io_bind (dict_get v ''Reason'') (\<lambda>x4.
      io_bind (emit (Print (''Reason: '' @ format_val x4))) (\<lambda>_.
      io_bind (emit (Print [])) (\<lambda>_.
        py_print_all rest)))))))))"

fun py_write_rows :: "PyIgnore list \<Rightarrow> unit io" where
  "py_write_rows [] = io_return ()"
| "py_write_rows (ig # rest) =
     io_bind (emit (WriteRow (py_values ig))) (\<lambda>_. py_write_rows rest)"

definition py_export :: "filesystem \<Rightarrow> string option \<Rightarrow> PyIgnore list \<Rightarrow> unit io" where
  "py_export fs export_dir igs =
     (case export_dir of
        None \<Rightarrow> py_print_all igs
      | Some d \<Rightarrow>
          (case open_write fs (joinpath fs d ''pylint-ignores.csv'') of
             Some e \<Rightarrow> io_raise e
           | None \<Rightarrow>
               io_bind (emit (OpenWrite (joinpath fs d ''pylint-ignores.csv''))) (\<lambda>_.
                 case igs of
                   [] \<Rightarrow> io_raise IndexError
                 | first # _ \<Rightarrow>
                     io_bind (emit (WriteHeader py_keys)) (\<lambda>_. py_write_rows igs))))"

subsection \<open>main\<close>

record py_args =
  py_path :: string
  py_output_dir :: "string option"
  py_ignore_dirs :: "string option"
  py_verify :: bool

fun py_scan_paths ::
  "filesystem \<Rightarrow> string list \<Rightarrow> string list \<Rightarrow> PyIgnore list \<times> int \<Rightarrow> (PyIgnore list \<times> int) io" where
  "py_scan_paths fs ignore_dirs [] acc = io_return acc"
| "py_scan_paths fs ignore_dirs (file # rest) (igs, file_count) =
     (if list_ex (\<lambda>d. is_relative_to fs file d) ignore_dirs then
        py_scan_paths fs ignore_dirs rest (igs, file_count)
      else
        io_bind (io_of (py_find_ignores fs file)) (\<lambda>found.
          py_scan_paths fs ignore_dirs rest (igs @ found, file_count + 1)))"

definition py_count_message :: string where
  "py_count_message =
     ''WARNING: %d instance%s of Pylint ignores were detected across %d file%s, please assess if they are still relevant.''"

definition py_main :: "filesystem \<Rightarrow> py_args \<Rightarrow> unit io" where
  "py_main fs args =
     (let path = py_path args;
          export_dir = py_output_dir args;
          ignore_dirs = (case py_ignore_dirs args of
                           None \<Rightarrow> []
                         | Some str \<Rightarrow> map strip (split_on CHR '','' str))
      in
      io_bind (if export_dir = None then
                 emit (Log WARNING
                   ''WARNING: No output directory was specified, issues will be printed in the console.'' [])
               else io_return ()) (\<lambda>_.
      io_bind (case export_dir of
                 None \<Rightarrow> io_return ()
               | Some d \<Rightarrow>
                   if \<not> path_exists fs d then
                     io_bind (emit (Log INFO ''Creating export directory: %s'' [PyStr (resolve fs d)]))
                       (\<lambda>_. case mkdir fs d of
                              Some e \<Rightarrow> io_raise e
                            | None \<Rightarrow> emit (Mkdir d))
                   else io_return ()) (\<lambda>_.
      if \<not> path_exists fs path then
        io_bind (emit (Log ERROR (''ERROR: Specified path '' @ CHR 0x27 # ''%s'' @ CHR 0x27 # '' does not exist'')
                         [PyStr (resolve fs path)]))
          (\<lambda>_. sys_exit 1)
      else
        io_bind (if path_is_file fs path then
                   io_bind (io_of (py_find_ignores fs path)) (\<lambda>found. io_return (found, 1))
                 else
                   py_scan_paths fs ignore_dirs (glob fs path ''**/*.py'') ([], 0))
          (\<lambda>(igs, file_count).
        if igs = [] then
          io_bind (emit (Log INFO ''INFO: No pylint ignores detected.'' [])) (\<lambda>_. sys_exit 0)
        else
          io_bind (emit (Log WARNING py_count_message
                     [PyInt (int (length igs)),
                      PyStr (if length igs = 1 then [] else ''s''),
                      PyInt file_count,
                      PyStr (if file_count = 1 then [] else ''s'')])) (\<lambda>_.
          io_bind (if py_verify args then py_catch_bad_ignores igs else io_return ()) (\<lambda>_.
            py_export fs export_dir igs))))))"


section \<open>Auxiliary notions for the proofs\<close>

text \<open>The groups a pattern certainly sets, and the groups it can set.\<close>

fun sure :: "regex \<Rightarrow> nat list" where
  "sure (Group i r) = i # sure r"
| "sure (Seq a b) = sure a @ sure b"
| "sure _ = []"

fun grps :: "regex \<Rightarrow> nat list" where
  "grps (Group i r) = i # grps r"
| "grps (Seq a b) = grps a @ grps b"
| "grps (Opt r) = grps r"
| "grps _ = []"

text \<open>
  The records a scan state holds, closed and buffered; the loop without its
  \<open>StopIteration\<close> branch; and the three ways one line changes the state: a directive
  opens a record, a continuation line extends the buffered one, any other line closes it.
\<close>

definition pending :: "'i scan \<Rightarrow> 'i list" where
  "pending st = ignores st @ (case ignore st of None \<Rightarrow> [] | Some ig \<Rightarrow> [ig])"

fun run_body ::
  "(int \<Rightarrow> string \<Rightarrow> 's \<Rightarrow> py_error + 's) \<Rightarrow> (int \<times> string) list \<Rightarrow> 's \<Rightarrow> py_error + 's" where
  "run_body body [] st = Inr st"
| "run_body body ((n, l) # gen) st =
     (case body n l st of Inl e \<Rightarrow> Inl e | Inr st' \<Rightarrow> run_body body gen st')"

definition scan_step :: "('i \<Rightarrow> int \<times> int) \<Rightarrow> bool \<Rightarrow> int \<Rightarrow> 'i scan \<Rightarrow> 'i scan \<Rightarrow> bool" where
  "scan_step span d n st st' =
     (if d then ignores st' = pending st \<and> (\<exists>new. ignore st' = Some new \<and> span new = (n, n))
      else (\<exists>ig ig'. ignore st = Some ig \<and> ignore st' = Some ig' \<and> ignores st' = ignores st
                     \<and> span ig' = (fst (span ig), n))
           \<or> (ignores st' = pending st \<and> ignore st' = None))"

definition spans_ok :: "int \<Rightarrow> (int \<times> int) list \<Rightarrow> bool" where
  "spans_ok n xs = (list_all (\<lambda>x. fst x \<le> snd x \<and> snd x < n) xs
                    \<and> sorted_wrt (\<lambda>x y. snd x < fst y) xs)"

text \<open>A file system holding one file, in which every directory can be created and every
  file opened for writing.\<close>

definition single_file :: "string \<Rightarrow> string list \<Rightarrow> filesystem" where
  "single_file p ls =
     \<lparr>path_exists = (\<lambda>q. q = p), path_is_file = (\<lambda>q. q = p),
      readlines = (\<lambda>q. if q = p then Some ls else None),
      read_error = (\<lambda>q. FileNotFoundError),
      open_write = (\<lambda>q. None), mkdir = (\<lambda>q. None),
      glob = (\<lambda>q pat. []), suffix = (\<lambda>q. []), is_relative_to = (\<lambda>q d. False),
      resolve = (\<lambda>q. q), joinpath = (\<lambda>d f. d @ CHR ''/'' # f)\<rparr>"

text \<open>A record names an issue: one or more characters of \<open>[a-zA-Z-]\<close>.\<close>

definition issue_ok :: "PyIgnore \<Rightarrow> bool" where
  "issue_ok r = (case issue r of None \<Rightarrow> False | Some w \<Rightarrow> w \<noteq> [] \<and> list_all (in_class issue_chars) w)"





text \<open>
  For the policy gate: a record is flagged when its rendered reason is the placeholder
  text, and each flagged record is reported by one call on the logger.
\<close>

definition py_flagged :: "PyIgnore \<Rightarrow> bool" where
  "py_flagged ig = (py_reason ig = [] \<or> join '' '' (py_reason ig) = No_reason)"

definition es_flagged :: "Ignore \<Rightarrow> bool" where
  "es_flagged ig =
     (case reason ig of None \<Rightarrow> True | Some rs \<Rightarrow> rs = [] \<or> join '' '' rs = No_reason)"

definition py_report_line :: "int \<times> PyIgnore \<Rightarrow> event" where
  "py_report_line x =
     Log ERROR ''%d. %s, lines %s''
       [PyInt (fst x), PyStr (py_filepath (snd x)),
        PyStr (str_int (py_start (snd x)) @ ''-'' @ str_int (py_end (snd x)))]"

definition es_report_line :: "int \<times> Ignore \<Rightarrow> event" where
  "es_report_line x =
     Log ERROR ''%d. %s, lines %s''
       [PyInt (fst x), PyStr (filepath (snd x)),
        PyStr (str_int (start (snd x)) @ ''-'' @ str_int (end_line (snd x)))]"


section \<open>Facts about the matcher\<close>

lemma star_rests_split:
  "t \<in> set (star_rests cls s) \<Longrightarrow> \<exists>w. s = w @ t \<and> list_all (in_class cls) w"
proof (induction s)
  case Nil
  then show ?case by simp
next
  case (Cons c s)
  show ?case
  proof (cases "t = c # s")
    case True
    then show ?thesis by simp
  next
    case False
    with Cons.prems have c: "in_class cls c" and t: "t \<in> set (star_rests cls s)"
      by (auto split: if_splits)
    from Cons.IH [OF t] obtain w where "s = w @ t" "list_all (in_class cls) w" by blast
    with c have "c # s = (c # w) @ t \<and> list_all (in_class cls) (c # w)" by simp
    then show ?thesis by blast
  qed
qed

lemma re_run_Seq_iff:
  "x \<in> set (re_run (Seq a b) n st) \<longleftrightarrow> (\<exists>y \<in> set (re_run a n st). x \<in> set (re_run b n y))"
  by (cases st) auto

lemma re_run_keeps:
  "(t, g') \<in> set (re_run r n (s, g)) \<Longrightarrow> i \<notin> set (grps r) \<Longrightarrow> map_of g' i = map_of g i"
proof (induction r arbitrary: s g t g')
  case (Seq a b)
  from Seq.prems(1) obtain u h where 1: "(u, h) \<in> set (re_run a n (s, g))"
    and 2: "(t, g') \<in> set (re_run b n (u, h))"
    by auto
  from Seq.prems(2) have "i \<notin> set (grps a)" "i \<notin> set (grps b)" by simp_all
  with Seq.IH(1) [OF 1] Seq.IH(2) [OF 2] show ?case by simp
next
  case (Group j r)
  from Group.prems(1) obtain h where 1: "(t, h) \<in> set (re_run r n (s, g))"
    and 2: "g' = (j, take (length s - length t) s) # h"
    by auto
  from Group.prems(2) have "i \<noteq> j" "i \<notin> set (grps r)" by simp_all
  with Group.IH [OF 1] 2 show ?case by simp
next
  case (Opt r)
  then show ?case by auto
qed (auto split: list.splits if_splits)

lemma re_run_sets:
  "(t, g') \<in> set (re_run r n (s, g)) \<Longrightarrow> i \<in> set (sure r) \<or> map_of g i \<noteq> None \<Longrightarrow> map_of g' i \<noteq> None"
proof (induction r arbitrary: s g t g')
  case (Seq a b)
  from Seq.prems(1) obtain u h where 1: "(u, h) \<in> set (re_run a n (s, g))"
    and 2: "(t, g') \<in> set (re_run b n (u, h))"
    by auto
  show ?case
  proof (cases "i \<in> set (sure b)")
    case True
    with Seq.IH(2) [OF 2] show ?thesis by simp
  next
    case False
    with Seq.prems(2) have "i \<in> set (sure a) \<or> map_of g i \<noteq> None" by auto
    from Seq.IH(1) [OF 1 this] have "map_of h i \<noteq> None" .
    with Seq.IH(2) [OF 2] show ?thesis by simp
  qed
next
  case (Group j r)
  from Group.prems(1) obtain h where 1: "(t, h) \<in> set (re_run r n (s, g))"
    and 2: "g' = (j, take (length s - length t) s) # h"
    by auto
  show ?case
  proof (cases "i = j")
    case True
    with 2 show ?thesis by simp
  next
    case False
    with Group.prems(2) have "i \<in> set (sure r) \<or> map_of g i \<noteq> None" by auto
    from Group.IH [OF 1 this] 2 False show ?thesis by simp
  qed
next
  case (Opt r)
  from Opt.prems(2) have "map_of g i \<noteq> None" by simp
  with Opt.prems(1) Opt.IH show ?case by auto
qed (auto split: list.splits if_splits)


lemma re_match_group_sure:
  assumes "re_match p s = Some m" and "i \<in> set (sure (prog p))" and "i \<le> ngroups (prog p)"
  shows "\<exists>w. group m i = Inr (Some w)"
proof -
  from assms(1) obtain t g rest where r: "re_run (prog p) (length s) (s, []) = (t, g) # rest"
    and m: "m = \<lparr>re = p, captured = g\<rparr>"
    by (auto simp: re_match_def split: list.splits)
  from r have "(t, g) \<in> set (re_run (prog p) (length s) (s, []))" by simp
  from re_run_sets [OF this] assms(2) have "map_of g i \<noteq> None" by blast
  with m assms(3) show ?thesis by (auto simp: group_def)
qed

lemma re_match_re: "re_match p s = Some m \<Longrightarrow> re m = p"
  by (auto simp: re_match_def split: list.splits)

lemma seqs_group_plus:
  "(t, g') \<in> set (re_run (seqs (pre @ Group i (Plus cls) # post)) n (s, g)) \<Longrightarrow>
   i \<notin> set (grps (seqs post)) \<Longrightarrow>
   \<exists>w. map_of g' i = Some w \<and> w \<noteq> [] \<and> list_all (in_class cls) w"
proof (induction pre arbitrary: s g)
  case Nil
  from Nil.prems(1) have "(t, g') \<in> set (re_run (Seq (Group i (Plus cls)) (seqs post)) n (s, g))"
    by simp
  then obtain y where y: "y \<in> set (re_run (Group i (Plus cls)) n (s, g))"
    "(t, g') \<in> set (re_run (seqs post) n y)"
    unfolding re_run_Seq_iff by blast
  obtain u h where uh: "y = (u, h)" by (cases y)
  from y uh have 1: "(u, h) \<in> set (re_run (Group i (Plus cls)) n (s, g))"
    and 2: "(t, g') \<in> set (re_run (seqs post) n (u, h))"
    by simp_all
  from 1 obtain c s' where s: "s = c # s'" and c: "in_class cls c"
    and u: "u \<in> set (star_rests cls s')" and h: "h = (i, take (length s - length u) s) # g"
    by (auto split: list.splits if_splits)
  from star_rests_split [OF u] obtain w where w: "s' = w @ u" "list_all (in_class cls) w" by blast
  with s have "take (length s - length u) s = c # w" by simp
  with h have "map_of h i = Some (c # w)" by simp
  with re_run_keeps [OF 2 Nil.prems(2)] c w(2) show ?case by simp
next
  case (Cons r pre)
  from Cons.prems(1) obtain u h where
    "(t, g') \<in> set (re_run (seqs (pre @ Group i (Plus cls) # post)) n (u, h))"
    by auto
  from Cons.IH [OF this Cons.prems(2)] show ?case .
qed

lemma pylint_group1:
  assumes "re_match PYLINT_IGNORE_PATTERN s = Some m"
  shows "\<exists>w. group m 1 = Inr (Some w) \<and> w \<noteq> [] \<and> list_all (in_class issue_chars) w"
proof -
  let ?pre = "[Star [Dot], lit ''#'', Star ws, lit ''pylint'', Star ws, lit '':'', Star ws,
                   lit ''disable'', Opt (lit ''-next''), Star ws, lit ''='', Star ws]"
  let ?post = "[Opt (Seq (lit '' '') (Group 2 (Plus [Dot]))), Eol]"
  have p: "prog PYLINT_IGNORE_PATTERN = seqs (?pre @ Group 1 (Plus issue_chars) # ?post)"
    by (simp add: PYLINT_IGNORE_PATTERN_def)
  from assms obtain t g rest where
    r: "re_run (prog PYLINT_IGNORE_PATTERN) (length s) (s, []) = (t, g) # rest"
    and m: "m = \<lparr>re = PYLINT_IGNORE_PATTERN, captured = g\<rparr>"
    by (auto simp: re_match_def split: list.splits)
  from r have "(t, g) \<in> set (re_run (seqs (?pre @ Group 1 (Plus issue_chars) # ?post)) (length s) (s, []))"
    unfolding p by simp
  from seqs_group_plus [OF this] obtain w where
    "map_of g 1 = Some w" "w \<noteq> []" "list_all (in_class issue_chars) w"
    by auto
  moreover have "ngroups (prog PYLINT_IGNORE_PATTERN) = 2"
    by (simp add: PYLINT_IGNORE_PATTERN_def)
  ultimately show ?thesis using m by (simp add: group_def)
qed

lemma sure_patterns:
  "sure (prog TS_COMMENT_PATTERN) = [1]"
  "sure (prog ESLINT_IGNORE_ENTIRE_FILE_PATTERN) = [1]"
  "sure (prog ESLINT_INLINE_IGNORE_PATTERN) = [1]"
  "sure (prog comment_pattern) = [1]"
  "sure (prog PYTHON_COMMENT_PATTERN) = [1]"
  "sure (prog PYLINT_IGNORE_PATTERN) = [1]"
  by (simp_all add: TS_COMMENT_PATTERN_def ESLINT_IGNORE_ENTIRE_FILE_PATTERN_def
      ESLINT_INLINE_IGNORE_PATTERN_def comment_pattern_def PYTHON_COMMENT_PATTERN_def
      PYLINT_IGNORE_PATTERN_def)

lemma ngroups_patterns:
  "ngroups (prog TS_COMMENT_PATTERN) = 1"
  "ngroups (prog ESLINT_IGNORE_ENTIRE_FILE_PATTERN) = 1"
  "ngroups (prog ESLINT_INLINE_IGNORE_PATTERN) = 1"
  "ngroups (prog TS_INLINE_IGNORE) = 0"
  "ngroups (prog comment_pattern) = 1"
  "ngroups (prog PYTHON_COMMENT_PATTERN) = 1"
  "ngroups (prog PYLINT_IGNORE_PATTERN) = 2"
  by (simp_all add: TS_COMMENT_PATTERN_def ESLINT_IGNORE_ENTIRE_FILE_PATTERN_def
      ESLINT_INLINE_IGNORE_PATTERN_def comment_pattern_def PYTHON_COMMENT_PATTERN_def
      PYLINT_IGNORE_PATTERN_def TS_INLINE_IGNORE_def)

lemma group1_patterns:
  assumes "re_match p s = Some m"
    and "p \<in> {TS_COMMENT_PATTERN, ESLINT_IGNORE_ENTIRE_FILE_PATTERN, ESLINT_INLINE_IGNORE_PATTERN,
           comment_pattern, PYTHON_COMMENT_PATTERN, PYLINT_IGNORE_PATTERN}"
  shows "\<exists>w. group m 1 = Inr (Some w)"
proof -
  from assms(2) have "1 \<in> set (sure (prog p))" "1 \<le> ngroups (prog p)"
    by (auto simp: sure_patterns ngroups_patterns)
  with re_match_group_sure [OF assms(1)] show ?thesis by blast
qed

lemma group2_pylint:
  assumes "re_match PYLINT_IGNORE_PATTERN s = Some m"
  shows "\<exists>w. group m 2 = Inr w"
  using re_match_re [OF assms] by (simp add: group_def ngroups_patterns)

lemma group1_ts:
  assumes "re_match TS_INLINE_IGNORE s = Some m"
  shows "group m 1 = Inl IndexError"
  using re_match_re [OF assms] by (simp add: group_def ngroups_patterns)

section \<open>Facts about the scanning loops\<close>



lemma es_loop_run:
  "es_loop fp lines gen st =
     (case run_body (es_body fp lines) gen st of
        Inl e \<Rightarrow> Inl e
      | Inr st' \<Rightarrow> Inr (st'\<lparr>ignores := pending st'\<rparr>))"
  by (induction gen arbitrary: st) (auto simp: pending_def split: sum.splits option.splits)

lemma py_loop_run:
  "py_loop fp lines gen st =
     (case run_body (py_body fp lines) gen st of
        Inl e \<Rightarrow> Inl e
      | Inr st' \<Rightarrow> Inr (st'\<lparr>ignores := pending st'\<rparr>))"
  by (induction gen arbitrary: st) (auto simp: pending_def split: sum.splits option.splits)

text \<open>An invariant indexed by the lines already read is kept by a run over a segment.\<close>

lemma run_body_invariant:
  assumes step: "\<And>pre l post st. lines = pre @ l # post \<Longrightarrow> I pre st \<Longrightarrow>
                   \<exists>st'. body (1 + int (length pre)) l st = Inr st' \<and> I (pre @ [l]) st'"
  shows "lines = pre0 @ mid @ post0 \<Longrightarrow> I pre0 st \<Longrightarrow>
         \<exists>st'. run_body body (enumerate_from (1 + int (length pre0)) mid) st = Inr st' \<and> I (pre0 @ mid) st'"
proof (induction mid arbitrary: pre0 st)
  case Nil
  then show ?case by simp
next
  case (Cons l mid)
  from Cons.prems have "lines = pre0 @ l # (mid @ post0)" by simp
  from step [OF this Cons.prems(2)] obtain st1 where
    b: "body (1 + int (length pre0)) l st = Inr st1" and i: "I (pre0 @ [l]) st1"
    by blast
  from Cons.prems(1) have "lines = (pre0 @ [l]) @ mid @ post0" by simp
  from Cons.IH [OF this i] obtain st' where
    "run_body body (enumerate_from (1 + int (length (pre0 @ [l]))) mid) st1 = Inr st'"
    "I ((pre0 @ [l]) @ mid) st'"
    by blast
  with b show ?case by (simp add: add.commute add.left_commute)
qed

lemma scan_step_spans:
  assumes "scan_step span d n st st'" and "spans_ok n (map span (pending st))"
  shows "spans_ok (n + 1) (map span (pending st'))"
proof (cases d)
  case True
  with assms(1) obtain new where "ignores st' = pending st" "ignore st' = Some new" "span new = (n, n)"
    by (auto simp: scan_step_def)
  then have "map span (pending st') = map span (pending st) @ [(n, n)]"
    by (simp add: pending_def)
  with assms(2) show ?thesis
    by (auto simp: spans_ok_def sorted_wrt_append list_all_iff)
next
  case False
  with assms(1) consider
    (ext) ig ig' where "ignore st = Some ig" "ignore st' = Some ig'" "ignores st' = ignores st"
      "span ig' = (fst (span ig), n)"
    | (close) "ignores st' = pending st" "ignore st' = None"
    by (auto simp: scan_step_def)
  then show ?thesis
  proof cases
    case ext
    then have "map span (pending st) = map span (ignores st) @ [span ig]"
      "map span (pending st') = map span (ignores st) @ [(fst (span ig), n)]"
      by (simp_all add: pending_def)
    with assms(2) show ?thesis
      by (auto simp: spans_ok_def sorted_wrt_append list_all_iff)
  next
    case close
    then have "map span (pending st') = map span (pending st)"
      by (simp add: pending_def)
    with assms(2) show ?thesis
      by (auto simp: spans_ok_def list_all_iff)
  qed
qed

lemma scan_step_length:
  assumes "scan_step span d n st st'"
  shows "length (pending st') = length (pending st) + (if d then 1 else 0)"
  using assms by (auto simp: scan_step_def pending_def)

text \<open>Inside the loop no exception is raised, and each line takes one of the three steps.\<close>

lemma getitem_previous:
  assumes "lines = pre @ l # post"
  shows "\<exists>p. getitem lines (1 + int (length pre) - 2) = Inr p"
  using assms by (auto simp: getitem_def Let_def)

lemma es_get_reason_total:
  assumes "lines = pre @ l # post"
  shows "\<exists>rs. es_get_reason (1 + int (length pre)) lines = Inr rs"
proof -
  from getitem_previous [OF assms] obtain p where
    p: "getitem lines (1 + int (length pre) - 2) = Inr p" by blast
  show ?thesis
  proof (cases "re_match TS_COMMENT_PATTERN p")
    case None
    with p show ?thesis by (simp add: es_get_reason_def)
  next
    case (Some m)
    from group1_patterns [OF Some] obtain w where "group m 1 = Inr (Some w)" by auto
    with p Some show ?thesis by (simp add: es_get_reason_def)
  qed
qed

lemma es_directive_cases:
  assumes "es_directive s = Some m"
  shows "(\<exists>w. group m 1 = Inr (Some w)) \<or> group m 1 = Inl IndexError"
proof -
  from assms consider "re_match ESLINT_IGNORE_ENTIRE_FILE_PATTERN s = Some m"
    | "re_match ESLINT_INLINE_IGNORE_PATTERN s = Some m"
    | "re_match TS_INLINE_IGNORE s = Some m"
    by (auto simp: es_directive_def split: option.splits)
  then show ?thesis
  proof cases
    case 1
    from group1_patterns [OF 1] show ?thesis by auto
  next
    case 2
    from group1_patterns [OF 2] show ?thesis by auto
  next
    case 3
    from group1_ts [OF 3] show ?thesis by simp
  qed
qed

lemma es_rule_total:
  assumes "es_directive s = Some m"
  shows "\<exists>r lg. es_rule m = Inr (r, lg)"
  using es_directive_cases [OF assms] by (auto simp: es_rule_def)

lemma es_body_directive:
  assumes "lines = pre @ l # post" and "es_directive (strip l) = Some m"
  shows "\<exists>r lg rs. es_rule m = Inr (r, lg) \<and> es_get_reason (1 + int (length pre)) lines = Inr rs \<and>
           es_body fp lines (1 + int (length pre)) l st =
             Inr \<lparr>ignore = Some \<lparr>filepath = fp, start = 1 + int (length pre),
                                  end_line = 1 + int (length pre), rule = r, reason = Some rs,
                                  type = get_ignore_type m\<rparr>,
                  ignores = pending st, debug_log = debug_log st @ lg\<rparr>"
proof -
  from es_rule_total [OF assms(2)] obtain r lg where r: "es_rule m = Inr (r, lg)" by blast
  from es_get_reason_total [OF assms(1)] obtain rs where
    rs: "es_get_reason (1 + int (length pre)) lines = Inr rs" by blast
  from r rs assms(2) show ?thesis
    by (simp add: es_body_def pending_def split: option.splits)
qed

lemma es_body_other:
  assumes "es_directive (strip l) = None"
  shows "es_body fp lines n l st = Inr (st\<lparr>ignores := pending st, ignore := None\<rparr>)"
  using assms by (simp add: es_body_def pending_def split: option.splits)

lemma es_body_step:
  assumes "lines = pre @ l # post"
  shows "\<exists>st'. es_body fp lines (1 + int (length pre)) l st = Inr st' \<and>
           scan_step (\<lambda>ig. (start ig, end_line ig)) (es_directive (strip l) \<noteq> None)
             (1 + int (length pre)) st st'"
proof (cases "es_directive (strip l)")
  case None
  from es_body_other [OF None] None show ?thesis
    by (simp add: scan_step_def)
next
  case (Some m)
  from es_body_directive [OF assms Some, of fp st] Some show ?thesis
    by (auto simp: scan_step_def)
qed

lemma py_get_reason_total:
  assumes "lines = pre @ l # post" and "re_match PYLINT_IGNORE_PATTERN s = Some m"
  shows "\<exists>rs. py_get_reason m (1 + int (length pre)) lines = Inr rs"
proof -
  from getitem_previous [OF assms(1)] obtain p where
    p: "getitem lines (1 + int (length pre) - 2) = Inr p" by blast
  from group2_pylint [OF assms(2)] obtain w2 where w2: "group m 2 = Inr w2" by blast
  show ?thesis
  proof (cases "re_match PYTHON_COMMENT_PATTERN p")
    case None
    with p w2 show ?thesis by (simp add: py_get_reason_def split: option.splits)
  next
    case (Some cm)
    from group1_patterns [OF Some] obtain w where "group cm 1 = Inr (Some w)" by auto
    with p Some w2 show ?thesis by (simp add: py_get_reason_def split: option.splits)
  qed
qed

lemma py_body_directive:
  assumes "lines = pre @ l # post" and "re_match PYLINT_IGNORE_PATTERN (strip l) = Some m"
  shows "\<exists>w rs. group m 1 = Inr (Some w) \<and> w \<noteq> [] \<and> list_all (in_class issue_chars) w \<and>
           py_get_reason m (1 + int (length pre)) lines = Inr rs \<and>
           py_body fp lines (1 + int (length pre)) l st =
             Inr (st\<lparr>ignore := Some \<lparr>py_filepath = fp, py_start = 1 + int (length pre),
                                      py_end = 1 + int (length pre), issue = Some w,
                                      py_reason = rs\<rparr>,
                     ignores := pending st\<rparr>)"
proof -
  from pylint_group1 [OF assms(2)] obtain w where
    w: "group m 1 = Inr (Some w)" "w \<noteq> []" "list_all (in_class issue_chars) w" by blast
  from py_get_reason_total [OF assms] obtain rs where
    rs: "py_get_reason m (1 + int (length pre)) lines = Inr rs" by blast
  from w rs assms(2) show ?thesis
    by (simp add: py_body_def pending_def split: option.splits)
qed

lemma py_body_comment:
  assumes "re_match PYLINT_IGNORE_PATTERN (strip l) = None"
    and "re_match PYTHON_COMMENT_PATTERN (strip l) = Some cm" and "ignore st = Some ig"
  shows "\<exists>g. group cm 1 = Inr (Some g) \<and>
           py_body fp lines n l st =
             Inr (st\<lparr>ignore := Some (ig\<lparr>py_end := n, py_reason := py_reason ig @ [strip g]\<rparr>)\<rparr>)"
proof -
  from group1_patterns [OF assms(2)] obtain g where "group cm 1 = Inr (Some g)" by auto
  with assms show ?thesis by (simp add: py_body_def)
qed

lemma py_body_other:
  assumes "re_match PYLINT_IGNORE_PATTERN (strip l) = None"
    and "re_match PYTHON_COMMENT_PATTERN (strip l) = None \<or> ignore st = None"
  shows "py_body fp lines n l st = Inr (st\<lparr>ignores := pending st, ignore := None\<rparr>)"
  using assms by (auto simp: py_body_def pending_def split: option.splits)

lemma py_body_step:
  assumes "lines = pre @ l # post"
  shows "\<exists>st'. py_body fp lines (1 + int (length pre)) l st = Inr st' \<and>
           scan_step (\<lambda>ig. (py_start ig, py_end ig))
             (re_match PYLINT_IGNORE_PATTERN (strip l) \<noteq> None) (1 + int (length pre)) st st'"
proof (cases "re_match PYLINT_IGNORE_PATTERN (strip l)")
  case (Some m)
  from py_body_directive [OF assms Some, of fp st] Some show ?thesis
    by (auto simp: scan_step_def)
next
  case None
  show ?thesis
  proof (cases "re_match PYTHON_COMMENT_PATTERN (strip l) = None \<or> ignore st = None")
    case True
    from py_body_other [OF None True] None show ?thesis
      by (simp add: scan_step_def)
  next
    case False
    then obtain cm ig where c: "re_match PYTHON_COMMENT_PATTERN (strip l) = Some cm"
      and i: "ignore st = Some ig" by auto
    from py_body_comment [OF None c i, of fp lines "1 + int (length pre)"] None i show ?thesis
      by (auto simp: scan_step_def)
  qed
qed

text \<open>The spans of the records held stay ordered, and each directive line adds one record.\<close>

lemma spans_ok_props:
  assumes "spans_ok n (map span xs)"
  shows "sorted_wrt (\<lambda>a b. fst (span a) < fst (span b)) xs"
    and "list_all (\<lambda>r. fst (span r) \<le> snd (span r)) xs"
    and "sorted_wrt (\<lambda>a b. snd (span a) < fst (span b)) xs"
proof -
  from assms have a: "list_all (\<lambda>x. fst x \<le> snd x \<and> snd x < n) (map span xs)"
    and s: "sorted_wrt (\<lambda>x y. snd x < fst y) (map span xs)"
    by (simp_all add: spans_ok_def)
  from s show 3: "sorted_wrt (\<lambda>a b. snd (span a) < fst (span b)) xs"
    by (simp add: sorted_wrt_map)
  from a show 2: "list_all (\<lambda>r. fst (span r) \<le> snd (span r)) xs"
    by (simp add: list_all_iff)
  from 2 have "\<And>x y. x \<in> set xs \<Longrightarrow> y \<in> set xs \<Longrightarrow> snd (span x) < fst (span y) \<Longrightarrow>
      fst (span x) < fst (span y)"
    by (fastforce simp: list_all_iff)
  with 3 show "sorted_wrt (\<lambda>a b. fst (span a) < fst (span b)) xs"
    by (rule sorted_wrt_mono_rel [rotated])
qed

lemma es_run_spans:
  "\<exists>st. run_body (es_body fp lines) (enumerate_from 1 lines)
            \<lparr>ignore = None, ignores = [], debug_log = []\<rparr> = Inr st
        \<and> spans_ok (1 + int (length lines)) (map (\<lambda>ig. (start ig, end_line ig)) (pending st))
        \<and> length (pending st) = length (filter (\<lambda>l. es_directive (strip l) \<noteq> None) lines)"
proof -
  let ?span = "\<lambda>ig. (start ig, end_line ig)"
  let ?I = "\<lambda>pre st. spans_ok (1 + int (length pre)) (map ?span (pending st))
      \<and> length (pending st) = length (filter (\<lambda>l. es_directive (strip l) \<noteq> None) pre)"
  have step: "\<exists>st'. es_body fp lines (1 + int (length pre)) l st = Inr st' \<and> ?I (pre @ [l]) st'"
    if "lines = pre @ l # post" and "?I pre st" for pre l post st
  proof -
    from es_body_step [OF that(1), of fp st] obtain st' where
      b: "es_body fp lines (1 + int (length pre)) l st = Inr st'"
      and s: "scan_step ?span (es_directive (strip l) \<noteq> None) (1 + int (length pre)) st st'"
      by blast
    from scan_step_spans [OF s] that(2) scan_step_length [OF s]
    have "?I (pre @ [l]) st'" by (simp add: add.commute add.left_commute)
    with b show ?thesis by blast
  qed
  have "lines = [] @ lines @ []" by simp
  from run_body_invariant [where I = ?I and body = "es_body fp lines", OF step this]
  show ?thesis by (simp add: spans_ok_def pending_def)
qed

lemma py_run_spans:
  "\<exists>st. run_body (py_body fp lines) (enumerate_from 1 lines)
            \<lparr>ignore = None, ignores = [], debug_log = []\<rparr> = Inr st
        \<and> spans_ok (1 + int (length lines)) (map (\<lambda>ig. (py_start ig, py_end ig)) (pending st))
        \<and> length (pending st) = length (filter (\<lambda>l. re_match PYLINT_IGNORE_PATTERN (strip l) \<noteq> None) lines)"
proof -
  let ?span = "\<lambda>ig. (py_start ig, py_end ig)"
  let ?I = "\<lambda>pre st. spans_ok (1 + int (length pre)) (map ?span (pending st))
      \<and> length (pending st) = length (filter (\<lambda>l. re_match PYLINT_IGNORE_PATTERN (strip l) \<noteq> None) pre)"
  have step: "\<exists>st'. py_body fp lines (1 + int (length pre)) l st = Inr st' \<and> ?I (pre @ [l]) st'"
    if "lines = pre @ l # post" and "?I pre st" for pre l post st
  proof -
    from py_body_step [OF that(1), of fp st] obtain st' where
      b: "py_body fp lines (1 + int (length pre)) l st = Inr st'"
      and s: "scan_step ?span (re_match PYLINT_IGNORE_PATTERN (strip l) \<noteq> None) (1 + int (length pre)) st st'"
      by blast
    from scan_step_spans [OF s] that(2) scan_step_length [OF s]
    have "?I (pre @ [l]) st'" by (simp add: add.commute add.left_commute)
    with b show ?thesis by blast
  qed
  have "lines = [] @ lines @ []" by simp
  from run_body_invariant [where I = ?I and body = "py_body fp lines", OF step this]
  show ?thesis by (simp add: spans_ok_def pending_def)
qed

lemma es_find_ignores_run:
  assumes "readlines fs fp = Some lines"
    and "run_body (es_body fp lines) (enumerate_from 1 lines)
            \<lparr>ignore = None, ignores = [], debug_log = []\<rparr> = Inr st"
  shows "es_find_ignores fs fp = Inr (debug_log st, pending st)"
  using assms by (simp add: es_find_ignores_def es_loop_run)

lemma py_find_ignores_run:
  assumes "readlines fs fp = Some lines"
    and "run_body (py_body fp lines) (enumerate_from 1 lines)
            \<lparr>ignore = None, ignores = [], debug_log = []\<rparr> = Inr st"
  shows "py_find_ignores fs fp = Inr (pending st)"
  using assms by (simp add: py_find_ignores_def py_loop_run)

lemma spans_ok_last_fresh:
  assumes "spans_ok n (map span (xs @ [x]))"
  shows "count_list (xs @ [x]) x = 1"
proof -
  from assms have a: "fst (span x) \<le> snd (span x)"
    and s: "\<forall>y \<in> set xs. snd (span y) < fst (span x)"
    by (auto simp: spans_ok_def sorted_wrt_append)
  have "x \<notin> set xs"
  proof
    assume "x \<in> set xs"
    with s have "snd (span x) < fst (span x)" by blast
    with a show False by simp
  qed
  then show ?thesis by (simp add: count_list_0_iff)
qed

text \<open>Every record the pylint scanner holds names an issue.\<close>

lemma py_run_issue:
  "\<exists>st. run_body (py_body fp lines) (enumerate_from 1 lines)
            \<lparr>ignore = None, ignores = [], debug_log = []\<rparr> = Inr st
        \<and> list_all issue_ok (pending st)"
proof -
  let ?I = "\<lambda>pre st. list_all issue_ok (pending st)"
  have step: "\<exists>st'. py_body fp lines (1 + int (length pre)) l st = Inr st' \<and> ?I (pre @ [l]) st'"
    if "lines = pre @ l # post" and "?I pre st" for pre :: "string list" and l post st
  proof (cases "re_match PYLINT_IGNORE_PATTERN (strip l)")
    case (Some m)
    from py_body_directive [OF that(1) Some, of fp st] that(2) show ?thesis
      by (auto simp: pending_def issue_ok_def)
  next
    case None
    show ?thesis
    proof (cases "re_match PYTHON_COMMENT_PATTERN (strip l) = None \<or> ignore st = None")
      case True
      from py_body_other [OF None True] that(2) show ?thesis
        by (simp add: pending_def)
    next
      case False
      then obtain cm ig where c: "re_match PYTHON_COMMENT_PATTERN (strip l) = Some cm"
        and i: "ignore st = Some ig" by auto
      from py_body_comment [OF None c i, of fp lines "1 + int (length pre)"] i that(2)
      show ?thesis
        by (auto simp: pending_def issue_ok_def)
    qed
  qed
  have "lines = [] @ lines @ []" by simp
  from run_body_invariant [where I = ?I and body = "py_body fp lines", OF step this]
  show ?thesis by (simp add: pending_def)
qed





section \<open>Facts about the policy gate\<close>

lemma io_bind_return [simp]: "io_bind (io_return x) f = f x"
  by (simp add: io_bind_def io_return_def split: prod.splits)

lemma io_bind_emit: "io_bind (emit e) f = (e # fst (f ()), snd (f ()))"
  by (simp add: io_bind_def emit_def split: prod.splits)

lemma py_reason_value:
  "dict_get (py_values ig) ''Reason'' =
     io_return (PyStr (if py_reason ig = [] then No_reason else join '' '' (py_reason ig)))"
  by (simp add: dict_get_def py_values_def)

lemma py_bad_ignores_filter: "py_bad_ignores igs = io_return (filter py_flagged igs)"
  by (induction igs) (auto simp: py_reason_value py_flagged_def)

lemma py_report_lines:
  "py_report xs = (map py_report_line xs, Return ())"
proof (induction xs)
  case Nil
  then show ?case by (simp add: io_return_def)
next
  case (Cons x xs)
  obtain idx ig where x: "x = (idx, ig)" by (cases x)
  have f: "dict_get (py_values ig) ''File'' = io_return (PyStr (py_filepath ig))"
    by (simp add: dict_get_def py_values_def)
  have l: "dict_get (py_values ig) ''Line section'' =
             io_return (PyStr (str_int (py_start ig) @ ''-'' @ str_int (py_end ig)))"
    by (simp add: dict_get_def py_values_def)
  from Cons.IH show ?case
    by (simp add: x f l io_bind_emit py_report_line_def)
qed

lemma py_catch_bad_ignores_eq:
  "py_catch_bad_ignores igs =
     (if list_ex py_flagged igs then
        (Log ERROR py_gate_message [] # map py_report_line (enumerate_from 1 (filter py_flagged igs)),
         Exit 1)
      else ([], Return ()))"
proof -
  have "filter py_flagged igs = [] \<longleftrightarrow> \<not> list_ex py_flagged igs"
    by (simp add: filter_empty_conv list_ex_iff)
  then show ?thesis
    by (simp add: py_catch_bad_ignores_def py_bad_ignores_filter py_report_lines
        io_bind_def emit_def sys_exit_def io_return_def)
qed

lemma es_values_typed:
  assumes "type ig = Some t"
  shows "es_values ig = io_return
            [(''File'', PyStr (filepath ig)),
             (''Line section'', PyStr (str_int (start ig) @ ''-'' @ str_int (end_line ig))),
             (''Type'', PyStr (IgnoreType_value t)),
             (''Rule'', PyStr (case rule ig of None \<Rightarrow> ''NA''
                                | Some r \<Rightarrow> if r = [] then ''NA'' else r)),
             (''Reason'', PyStr (case reason ig of None \<Rightarrow> No_reason
                                  | Some rs \<Rightarrow> if rs = [] then No_reason else join '' '' rs))]"
  using assms by (simp add: es_values_def)

lemma es_bad_ignores_filter:
  "list_all (\<lambda>ig. type ig \<noteq> None) igs \<Longrightarrow> es_bad_ignores igs = io_return (filter es_flagged igs)"
proof (induction igs)
  case Nil
  then show ?case by simp
next
  case (Cons ig igs)
  then obtain t where t: "type ig = Some t" by auto
  from Cons have "es_bad_ignores igs = io_return (filter es_flagged igs)" by simp
  moreover have "(case reason ig of None \<Rightarrow> No_reason
                  | Some rs \<Rightarrow> if rs = [] then No_reason else join '' '' rs) = No_reason
                 \<longleftrightarrow> es_flagged ig"
    by (simp add: es_flagged_def split: option.splits)
  ultimately show ?case
    by (simp add: es_values_typed [OF t] dict_get_def)
qed

lemma es_report_lines:
  "list_all (\<lambda>x. type (snd x) \<noteq> None) xs \<Longrightarrow> es_report xs = (map es_report_line xs, Return ())"
proof (induction xs)
  case Nil
  then show ?case by (simp add: io_return_def)
next
  case (Cons x xs)
  obtain idx ig where x: "x = (idx, ig)" by (cases x)
  with Cons.prems obtain t where t: "type ig = Some t" by auto
  from Cons have "es_report xs = (map es_report_line xs, Return ())" by simp
  then show ?case
    by (simp add: x es_values_typed [OF t] dict_get_def io_bind_emit es_report_line_def)
qed

lemma enumerate_from_snd: "map snd (enumerate_from k xs) = xs"
  by (induction xs arbitrary: k) simp_all

lemma es_catch_bad_ignores_eq:
  assumes "list_all (\<lambda>ig. type ig \<noteq> None) igs"
  shows "es_catch_bad_ignores igs =
     (if list_ex es_flagged igs then
        (Log ERROR es_gate_message [] # map es_report_line (enumerate_from 1 (filter es_flagged igs)),
         Exit 1)
      else ([], Return ()))"
proof -
  have e: "filter es_flagged igs = [] \<longleftrightarrow> \<not> list_ex es_flagged igs"
    by (simp add: filter_empty_conv list_ex_iff)
  from assms have "list_all (\<lambda>ig. type ig \<noteq> None) (map snd (enumerate_from 1 (filter es_flagged igs)))"
    unfolding enumerate_from_snd by (simp add: list_all_iff)
  then have "list_all (\<lambda>x. type (snd x) \<noteq> None) (enumerate_from 1 (filter es_flagged igs))"
    by (simp add: list_all_iff)
  from es_report_lines [OF this] e show ?thesis
    by (simp add: es_catch_bad_ignores_def es_bad_ignores_filter [OF assms]
        io_bind_def emit_def sys_exit_def io_return_def)
qed

text \<open>Every directive match has a type.\<close>

lemma get_ignore_type_entire:
  "re m = ESLINT_IGNORE_ENTIRE_FILE_PATTERN \<Longrightarrow> get_ignore_type m = Some ESLINT_IGNORE_ENTIRE_FILE"
  by (simp add: get_ignore_type_def SEARCH_IGNORE_TYPE_TUPLES_def
      ESLINT_IGNORE_ENTIRE_FILE_PATTERN_def bsl_def)

lemma get_ignore_type_inline:
  "re m = ESLINT_INLINE_IGNORE_PATTERN \<Longrightarrow> get_ignore_type m = Some ESLINT_IGNORE_SINGLE_LINE"
  by (simp add: get_ignore_type_def SEARCH_IGNORE_TYPE_TUPLES_def
      ESLINT_INLINE_IGNORE_PATTERN_def bsl_def)

lemma get_ignore_type_ts:
  "re m = TS_INLINE_IGNORE \<Longrightarrow> get_ignore_type m = Some TSLINT_IGNORE_SINGLE_LINE"
  by (simp add: get_ignore_type_def SEARCH_IGNORE_TYPE_TUPLES_def
      TS_INLINE_IGNORE_def bsl_def)

lemma es_directive_re:
  assumes "es_directive s = Some m"
  shows "re m = ESLINT_IGNORE_ENTIRE_FILE_PATTERN \<or> re m = ESLINT_INLINE_IGNORE_PATTERN
         \<or> re m = TS_INLINE_IGNORE"
  using assms by (auto simp: es_directive_def split: option.splits dest: re_match_re)

lemma es_directive_type:
  assumes "es_directive s = Some m"
  shows "\<exists>t. get_ignore_type m = Some t"
  using es_directive_re [OF assms]
  by (auto simp: get_ignore_type_entire get_ignore_type_inline get_ignore_type_ts)

text \<open>Every record of the eslint scanners has a type, so \<open>Ignore.values\<close> never exits on one.\<close>

lemma es_find_ignores_typed:
  assumes "readlines fs fp = Some lines"
  shows "\<exists>lg out. es_find_ignores fs fp = Inr (lg, out) \<and> list_all (\<lambda>ig. type ig \<noteq> None) out"
proof -
  let ?I = "\<lambda>(pre :: string list) (st :: Ignore scan). list_all (\<lambda>ig. type ig \<noteq> None) (pending st)"
  let ?init = "\<lparr>ignore = None, ignores = [], debug_log = []\<rparr> :: Ignore scan"
  have l: "lines = [] @ lines @ []" by simp
  have i0: "?I [] ?init" by (simp add: pending_def)
  have "\<exists>st'. run_body (es_body fp lines) (enumerate_from (1 + int (length ([] :: string list))) lines) ?init = Inr st'
          \<and> ?I ([] @ lines) st'"
  proof (rule run_body_invariant [where I = ?I and body = "es_body fp lines", OF _ l i0])
    fix pre l post and st :: "Ignore scan"
    assume a: "lines = pre @ l # post" and i: "?I pre st"
    show "\<exists>st'. es_body fp lines (1 + int (length pre)) l st = Inr st' \<and> ?I (pre @ [l]) st'"
    proof (cases "es_directive (strip l)")
      case None
      from es_body_other [OF None, of fp lines "1 + int (length pre)" st] i show ?thesis
        by (simp add: pending_def)
    next
      case (Some m)
      from es_directive_type [OF Some] obtain t where "get_ignore_type m = Some t" by blast
      with es_body_directive [OF a Some, of fp st] i show ?thesis
        by (auto simp: pending_def)
    qed
  qed
  then obtain st where
    r: "run_body (es_body fp lines) (enumerate_from 1 lines) ?init = Inr st"
    and t: "list_all (\<lambda>ig. type ig \<noteq> None) (pending st)"
    by auto
  from es_find_ignores_run [OF assms r] t show ?thesis by simp
qed

lemma scan_eslint_ignore_loop_typed:
  assumes "scan_eslint_ignore_loop lines gen igs = Inr out"
    and "list_all (\<lambda>ig. type ig \<noteq> None) igs"
  shows "list_all (\<lambda>ig. type ig \<noteq> None) out"
  using assms
proof (induction lines gen igs rule: scan_eslint_ignore_loop.induct)
  case (1 lines igs)
  then show ?case by simp
next
  case (2 lines line_number line rest igs)
  show ?case
  proof (cases "re_match comment_pattern line \<noteq> None \<or> line = []")
    case True
    with 2 show ?thesis by simp
  next
    case False
    with "2.prems"(1) obtain rs where
      rs: "get_reason_for_ignore_file line_number lines = Inr rs"
      and out: "scan_eslint_ignore_loop lines rest
               (igs @ [\<lparr>filepath = line, start = line_number + 1, end_line = line_number + 1,
                        rule = None, reason = rs,
                        type = Some ESLINT_IGNORE_ESLINTIGNORE\<rparr>]) = Inr out"
      by (auto split: sum.splits)
    from "2.IH"(2) [OF False rs out] "2.prems"(2) show ?thesis by simp
  qed
qed

lemma scan_eslint_ignore_file_typed:
  assumes "scan_eslint_ignore_file fs p = Inr out"
  shows "list_all (\<lambda>ig. type ig \<noteq> None) out"
proof (cases "path_exists fs p")
  case False
  with assms show ?thesis by (simp add: scan_eslint_ignore_file_def)
next
  case True
  with assms obtain raw where
    "scan_eslint_ignore_loop (map strip raw) (enumerate_from 0 (map strip raw)) [] = Inr out"
    by (auto simp: scan_eslint_ignore_file_def Let_def split: option.splits)
  from scan_eslint_ignore_loop_typed [OF this] show ?thesis by simp
qed




section \<open>The claims\<close>

text \<open>
  Claim C1 (the code departs from it).  With the verify flag set and every record
  justified, \<open>catch_bad_ignores\<close> returns and \<open>main\<close> goes on to \<open>export\<close>:
  the eslint run below prints the record to the console, the pylint run writes the report
  file.  Both return normally (exit status 0).
\<close>

theorem verify_mode_still_emits_the_report:
  "es_main (single_file ''a.js'' [''// why\<newline>'', ''// eslint-disable-next-line no-console\<newline>''])
     \<lparr>es_path = ''a.js'', eslint_ignore_path = ''.eslintignore'', es_output_dir = None,
      file_ext = ''.mjs,.js,.ts,.jsx,.tsx'', es_ignore_dirs = Some ''node_modules'',
      es_verify = True\<rparr>
   = ([Log WARNING ''WARNING: No output directory was specified, issues will be printed in the console.'' [],
       Log WARNING es_count_message [PyInt 1, PyStr [], PyInt 1, PyStr []],
       Print ''File: a.js'', Print ''Lines: 2-2'', Print ''Type: eslint-ignore (single line)'',
       Print ''Rule: no-console'', Print ''Reason: why'', Print []],
      Return ())
   \<and> py_main (single_file ''a.py'' [''# why\<newline>'', ''x = 1  # pylint: disable=invalid-name\<newline>''])
       \<lparr>py_path = ''a.py'', py_output_dir = Some ''out'', py_ignore_dirs = None, py_verify = True\<rparr>
   = ([Log INFO ''Creating export directory: %s'' [PyStr ''out''],
       Mkdir ''out'',
       Log WARNING py_count_message [PyInt 1, PyStr [], PyInt 1, PyStr []],
       OpenWrite ''out/pylint-ignores.csv'',
       WriteHeader [''File'', ''Line section'', ''Pylint issue'', ''Reason''],
       WriteRow [(''File'', PyStr ''a.py''), (''Line section'', PyStr ''2-2''),
                 (''Pylint issue'', PyStr ''invalid-name''), (''Reason'', PyStr ''why'')]],
      Return ())"
  by code_simp

text \<open>
  Claim C2 (the code departs from it).  For a directive on line 1 \<open>get_reason\<close>
  reads \<open>lines[-1]\<close>, the last line of the file: in both scans below the record of
  line 1 takes the comment of line 3 as its reason.
\<close>

theorem first_line_directive_reads_the_last_line:
  "es_find_ignores
     (single_file ''a.js'' [''x = 1; // eslint-disable-line no-console\<newline>'', ''y = 2;\<newline>'', ''// bye\<newline>''])
     ''a.js''
   = Inr ([], [\<lparr>filepath = ''a.js'', start = 1, end_line = 1, rule = Some ''no-console'',
                 reason = Some [''bye''], type = Some ESLINT_IGNORE_SINGLE_LINE\<rparr>])
   \<and> py_find_ignores
       (single_file ''a.py'' [''x = 1  # pylint: disable=invalid-name\<newline>'', ''y = 2\<newline>'', ''# bye\<newline>''])
       ''a.py''
   = Inr [\<lparr>py_filepath = ''a.py'', py_start = 1, py_end = 1, issue = Some ''invalid-name'',
           py_reason = [''bye'']\<rparr>]"
  by code_simp

text \<open>
  Claim C3, as stated, fails: a comment line that is no directive closes the buffered
  record like any other line.  Below, line 1 opens a record and line 2 is such a comment
  line; after line 2 the record is among the closed records and nothing is buffered.
\<close>

theorem es_comment_line_closes_the_record_counterexample:
  "re_match TS_COMMENT_PATTERN ''// a note\<newline>'' \<noteq> None
   \<and> es_directive (strip ''// a note\<newline>'') = None
   \<and> es_body ''a.js'' [''x = 1; // eslint-disable-line no-console\<newline>'', ''// a note\<newline>'', ''y = 2;\<newline>'']
         1 ''x = 1; // eslint-disable-line no-console\<newline>''
         \<lparr>ignore = None, ignores = [], debug_log = []\<rparr>
     = Inr \<lparr>ignore = Some \<lparr>filepath = ''a.js'', start = 1, end_line = 1, rule = Some ''no-console'',
                            reason = Some [], type = Some ESLINT_IGNORE_SINGLE_LINE\<rparr>,
            ignores = [], debug_log = []\<rparr>
   \<and> es_body ''a.js'' [''x = 1; // eslint-disable-line no-console\<newline>'', ''// a note\<newline>'', ''y = 2;\<newline>'']
         2 ''// a note\<newline>''
         \<lparr>ignore = Some \<lparr>filepath = ''a.js'', start = 1, end_line = 1, rule = Some ''no-console'',
                          reason = Some [], type = Some ESLINT_IGNORE_SINGLE_LINE\<rparr>,
          ignores = [], debug_log = []\<rparr>
     = Inr \<lparr>ignore = None,
            ignores = [\<lparr>filepath = ''a.js'', start = 1, end_line = 1, rule = Some ''no-console'',
                        reason = Some [], type = Some ESLINT_IGNORE_SINGLE_LINE\<rparr>],
            debug_log = []\<rparr>"
  by code_simp

text \<open>
  Claim C3, amended.  In the eslint scanner a buffered record is closed by the next line
  whatever it is: a line that matches no directive pattern, comment or not, appends the
  record and leaves nothing buffered; a directive line appends it and buffers a new
  record for its own line; and at the end of the input the record is appended.
\<close>

theorem es_every_other_line_closes_the_record:
  assumes "ignore st = Some ig"
  shows "(es_directive (strip l) = None \<longrightarrow>
            es_body fp lines n l st = Inr (st\<lparr>ignores := ignores st @ [ig], ignore := None\<rparr>))
       \<and> (es_directive (strip l) \<noteq> None \<longrightarrow> lines = pre @ l # post \<longrightarrow>
            (\<exists>st' new. es_body fp lines (1 + int (length pre)) l st = Inr st'
                \<and> ignores st' = ignores st @ [ig] \<and> ignore st' = Some new
                \<and> start new = 1 + int (length pre)))
       \<and> es_loop fp lines [] st = Inr (st\<lparr>ignores := ignores st @ [ig]\<rparr>)"
proof (intro conjI impI)
  assume "es_directive (strip l) = None"
  from es_body_other [OF this, of fp lines n st] assms
  show "es_body fp lines n l st = Inr (st\<lparr>ignores := ignores st @ [ig], ignore := None\<rparr>)"
    by (simp add: pending_def)
next
  assume "es_directive (strip l) \<noteq> None" and l: "lines = pre @ l # post"
  then obtain m where "es_directive (strip l) = Some m" by auto
  from es_body_directive [OF l this, of fp st] assms
  show "\<exists>st' new. es_body fp lines (1 + int (length pre)) l st = Inr st'
                \<and> ignores st' = ignores st @ [ig] \<and> ignore st' = Some new
                \<and> start new = 1 + int (length pre)"
    by (auto simp: pending_def)
next
  from assms show "es_loop fp lines [] st = Inr (st\<lparr>ignores := ignores st @ [ig]\<rparr>)"
    by simp
qed

theorem es_every_other_line_closes_the_record_witness:
  "ignore \<lparr>ignore = Some \<lparr>filepath = ''a.js'', start = 1, end_line = 1, rule = Some ''no-console'',
                           reason = Some [], type = Some ESLINT_IGNORE_SINGLE_LINE\<rparr>,
           ignores = [], debug_log = []\<rparr>
     = Some \<lparr>filepath = ''a.js'', start = 1, end_line = 1, rule = Some ''no-console'',
             reason = Some [], type = Some ESLINT_IGNORE_SINGLE_LINE\<rparr>
   \<and> es_directive (strip ''// a note\<newline>'') = None
   \<and> es_body ''a.js'' [''x = 1; // eslint-disable-line no-console\<newline>'', ''// a note\<newline>'']
         2 ''// a note\<newline>''
         \<lparr>ignore = Some \<lparr>filepath = ''a.js'', start = 1, end_line = 1, rule = Some ''no-console'',
                          reason = Some [], type = Some ESLINT_IGNORE_SINGLE_LINE\<rparr>,
          ignores = [], debug_log = []\<rparr>
     = Inr \<lparr>ignore = None,
            ignores = [\<lparr>filepath = ''a.js'', start = 1, end_line = 1, rule = Some ''no-console'',
                        reason = Some [], type = Some ESLINT_IGNORE_SINGLE_LINE\<rparr>],
            debug_log = []\<rparr>
   \<and> es_directive (strip ''// @ts-ignore\<newline>'') \<noteq> None
   \<and> [''x = 1; // eslint-disable-line no-console\<newline>'', ''// @ts-ignore\<newline>'']
       = [''x = 1; // eslint-disable-line no-console\<newline>''] @ ''// @ts-ignore\<newline>'' # []
   \<and> (\<exists>st' new.
         es_body ''a.js'' [''x = 1; // eslint-disable-line no-console\<newline>'', ''// @ts-ignore\<newline>'']
           2 ''// @ts-ignore\<newline>''
           \<lparr>ignore = Some \<lparr>filepath = ''a.js'', start = 1, end_line = 1, rule = Some ''no-console'',
                            reason = Some [], type = Some ESLINT_IGNORE_SINGLE_LINE\<rparr>,
            ignores = [], debug_log = []\<rparr> = Inr st'
       \<and> ignores st' = [\<lparr>filepath = ''a.js'', start = 1, end_line = 1, rule = Some ''no-console'',
                          reason = Some [], type = Some ESLINT_IGNORE_SINGLE_LINE\<rparr>]
       \<and> ignore st' = Some new \<and> start new = 2)
   \<and> es_loop ''a.js'' [''x = 1; // eslint-disable-line no-console\<newline>'', ''// a note\<newline>''] []
         \<lparr>ignore = Some \<lparr>filepath = ''a.js'', start = 1, end_line = 1, rule = Some ''no-console'',
                          reason = Some [], type = Some ESLINT_IGNORE_SINGLE_LINE\<rparr>,
          ignores = [], debug_log = []\<rparr>
     = Inr \<lparr>ignore = Some \<lparr>filepath = ''a.js'', start = 1, end_line = 1, rule = Some ''no-console'',
                            reason = Some [], type = Some ESLINT_IGNORE_SINGLE_LINE\<rparr>,
            ignores = [\<lparr>filepath = ''a.js'', start = 1, end_line = 1, rule = Some ''no-console'',
                        reason = Some [], type = Some ESLINT_IGNORE_SINGLE_LINE\<rparr>],
            debug_log = []\<rparr>"
proof -
  let ?ig = "\<lparr>filepath = ''a.js'', start = 1, end_line = 1, rule = Some ''no-console'',
              reason = Some [], type = Some ESLINT_IGNORE_SINGLE_LINE\<rparr>"
  let ?st = "\<lparr>ignore = Some ?ig, ignores = [], debug_log = []\<rparr>"
  let ?d = "''x = 1; // eslint-disable-line no-console\<newline>''"
  let ?lines = "[?d, ''// a note\<newline>'']"
  let ?other = "[?d, ''// @ts-ignore\<newline>'']"
  have h: "ignore ?st = Some ?ig" by simp
  have d: "es_directive (strip ''// a note\<newline>'') = None" by code_simp
  have e: "es_directive (strip ''// @ts-ignore\<newline>'') \<noteq> None" by code_simp
  have s: "?other = [?d] @ ''// @ts-ignore\<newline>'' # []" by simp
  from es_every_other_line_closes_the_record [OF h, of "''// a note\<newline>''" "''a.js''" ?lines 2] d
  have 1: "es_body ''a.js'' ?lines 2 ''// a note\<newline>'' ?st
             = Inr \<lparr>ignore = None, ignores = [?ig], debug_log = []\<rparr>"
    and 2: "es_loop ''a.js'' ?lines [] ?st
             = Inr \<lparr>ignore = Some ?ig, ignores = [?ig], debug_log = []\<rparr>"
    by simp_all
  note t = es_every_other_line_closes_the_record
             [OF h, of "''// @ts-ignore\<newline>''" "''a.js''" ?other 2 "[?d]" "[]"]
  from t have "es_directive (strip ''// @ts-ignore\<newline>'') \<noteq> None \<longrightarrow>
          ?other = [?d] @ ''// @ts-ignore\<newline>'' # [] \<longrightarrow>
          (\<exists>st' new. es_body ''a.js'' ?other (1 + int (length [?d])) ''// @ts-ignore\<newline>'' ?st = Inr st'
              \<and> ignores st' = ignores ?st @ [?ig] \<and> ignore st' = Some new
              \<and> start new = 1 + int (length [?d]))"
    by (rule conjunct1 [OF conjunct2])
  with e s have "\<exists>st' new. es_body ''a.js'' ?other (1 + int (length [?d])) ''// @ts-ignore\<newline>'' ?st = Inr st'
              \<and> ignores st' = ignores ?st @ [?ig] \<and> ignore st' = Some new
              \<and> start new = 1 + int (length [?d])"
    by (elim impE) assumption+
  moreover have "1 + int (length [?d]) = 2" by simp
  moreover have "ignores ?st @ [?ig] = [?ig]" by simp
  ultimately
  have 3: "\<exists>st' new. es_body ''a.js'' ?other 2 ''// @ts-ignore\<newline>'' ?st = Inr st'
             \<and> ignores st' = [?ig] \<and> ignore st' = Some new \<and> start new = 2"
    by (simp only:)
  from h d 1 e s 3 2 show ?thesis by (intro conjI)
qed

text \<open>
  Claim C4 (the code departs from it).  \<open>get_reason_for_ignore_file\<close> returns
  \<open>None\<close>, not the empty list, when the previous line is not a comment: the record of
  the second path below has \<open>reason = None\<close>, while the record of the first line has
  the empty list.
\<close>

theorem ignore_list_reason_is_None:
  "scan_eslint_ignore_file (single_file ''.eslintignore'' [''build\<newline>'', ''dist\<newline>''])
     ''.eslintignore''
   = Inr [\<lparr>filepath = ''build'', start = 1, end_line = 1, rule = None, reason = Some [],
           type = Some ESLINT_IGNORE_ESLINTIGNORE\<rparr>,
          \<lparr>filepath = ''dist'', start = 2, end_line = 2, rule = None, reason = None,
           type = Some ESLINT_IGNORE_ESLINTIGNORE\<rparr>]"
  by code_simp

text \<open>
  Claim C5, as stated, fails: the gate compares the rendered reason with the placeholder
  text, so a record whose justification is the non-empty list holding that very text is
  reported and the run exits 1.  The record below is what the scanner returns for a
  directive under the comment line \<open># (No reason provided)\<close>.
\<close>

theorem gate_rejects_a_non_empty_justification_counterexample:
  "py_find_ignores
     (single_file ''a.py'' [''# (No reason provided)\<newline>'', ''x = 1  # pylint: disable=invalid-name\<newline>''])
     ''a.py''
   = Inr [\<lparr>py_filepath = ''a.py'', py_start = 2, py_end = 2, issue = Some ''invalid-name'',
           py_reason = [''(No reason provided)'']\<rparr>]
   \<and> py_catch_bad_ignores
       [\<lparr>py_filepath = ''a.py'', py_start = 2, py_end = 2, issue = Some ''invalid-name'',
         py_reason = [''(No reason provided)'']\<rparr>]
   = ([Log ERROR py_gate_message [],
       Log ERROR ''%d. %s, lines %s'' [PyInt 1, PyStr ''a.py'', PyStr ''2-2'']],
      Exit 1)
   \<and> es_catch_bad_ignores
       [\<lparr>filepath = ''a.js'', start = 2, end_line = 2, rule = Some ''no-console'',
         reason = Some [''(No reason provided)''], type = Some ESLINT_IGNORE_SINGLE_LINE\<rparr>]
   = ([Log ERROR es_gate_message [],
       Log ERROR ''%d. %s, lines %s'' [PyInt 1, PyStr ''a.js'', PyStr ''2-2'']],
      Exit 1)"
  by code_simp

text \<open>
  Claim C5, amended.  The policy gate reports each flagged record (its location and line
  span, numbered from 1) after one heading and exits 1 if and only if some record is
  flagged; otherwise it logs nothing and returns.  A record is flagged when its rendered
  reason is the placeholder text: when it has no justification, or when its fragments
  joined by single spaces spell \<open>(No reason provided)\<close>.  For the eslint gate
  every record is taken to have a type, as every record of the scanners has
  (\<open>es_find_ignores_typed\<close>, \<open>scan_eslint_ignore_file_typed\<close>).
\<close>

theorem gate_fails_on_the_placeholder_text:
  assumes "list_all (\<lambda>ig. type ig \<noteq> None) es_igs"
  shows "es_catch_bad_ignores es_igs =
           (if list_ex es_flagged es_igs then
              (Log ERROR es_gate_message []
                 # map es_report_line (enumerate_from 1 (filter es_flagged es_igs)),
               Exit 1)
            else ([], Return ()))
       \<and> py_catch_bad_ignores py_igs =
           (if list_ex py_flagged py_igs then
              (Log ERROR py_gate_message []
                 # map py_report_line (enumerate_from 1 (filter py_flagged py_igs)),
               Exit 1)
            else ([], Return ()))"
  using es_catch_bad_ignores_eq [OF assms] py_catch_bad_ignores_eq by simp

theorem gate_fails_on_the_placeholder_text_witness:
  "list_all (\<lambda>ig. type ig \<noteq> None)
     [\<lparr>filepath = ''build'', start = 1, end_line = 1, rule = None, reason = Some [''generated''],
       type = Some ESLINT_IGNORE_ESLINTIGNORE\<rparr>,
      \<lparr>filepath = ''dist'', start = 2, end_line = 2, rule = None, reason = None,
       type = Some ESLINT_IGNORE_ESLINTIGNORE\<rparr>]
   \<and> es_catch_bad_ignores
       [\<lparr>filepath = ''build'', start = 1, end_line = 1, rule = None, reason = Some [''generated''],
         type = Some ESLINT_IGNORE_ESLINTIGNORE\<rparr>,
        \<lparr>filepath = ''dist'', start = 2, end_line = 2, rule = None, reason = None,
         type = Some ESLINT_IGNORE_ESLINTIGNORE\<rparr>]
     = ([Log ERROR es_gate_message [],
         Log ERROR ''%d. %s, lines %s'' [PyInt 1, PyStr ''dist'', PyStr ''2-2'']],
        Exit 1)
   \<and> py_catch_bad_ignores
       [\<lparr>py_filepath = ''a.py'', py_start = 2, py_end = 3, issue = Some ''invalid-name'',
         py_reason = [''kept for'', ''the old API'']\<rparr>]
     = ([], Return ())"
proof -
  let ?es = "[\<lparr>filepath = ''build'', start = 1, end_line = 1, rule = None, reason = Some [''generated''],
       type = Some ESLINT_IGNORE_ESLINTIGNORE\<rparr>,
      \<lparr>filepath = ''dist'', start = 2, end_line = 2, rule = None, reason = None,
       type = Some ESLINT_IGNORE_ESLINTIGNORE\<rparr>]"
  let ?py = "[\<lparr>py_filepath = ''a.py'', py_start = 2, py_end = 3, issue = Some ''invalid-name'',
         py_reason = [''kept for'', ''the old API'']\<rparr>]"
  have h: "list_all (\<lambda>ig. type ig \<noteq> None) ?es" by simp
  have e: "(if list_ex es_flagged ?es then
              (Log ERROR es_gate_message []
                 # map es_report_line (enumerate_from 1 (filter es_flagged ?es)),
               Exit 1)
            else ([], Return ()))
           = ([Log ERROR es_gate_message [],
               Log ERROR ''%d. %s, lines %s'' [PyInt 1, PyStr ''dist'', PyStr ''2-2'']],
              Exit (1 :: int))"
    by code_simp
  have p: "(if list_ex py_flagged ?py then
              (Log ERROR py_gate_message []
                 # map py_report_line (enumerate_from 1 (filter py_flagged ?py)),
               Exit 1)
            else ([], Return ()))
           = ([], Return ())"
    by code_simp
  from gate_fails_on_the_placeholder_text [OF h, of ?py] e p h show ?thesis
    by simp
qed

text \<open>
  Claim C6, as stated, fails in both dialects: for a bare \<open>/* eslint-disable */\<close> the
  eslint scanner stores the empty string as the rule, not \<open>None\<close>; and for a pylint
  directive with nothing after \<open>=\<close> the pylint scanner returns no record at all.
\<close>

theorem empty_rule_list_is_not_None_counterexample:
  "es_find_ignores (single_file ''a.js'' [''/* eslint-disable */\<newline>'']) ''a.js''
   = Inr ([], [\<lparr>filepath = ''a.js'', start = 1, end_line = 1, rule = Some [],
                 reason = Some [], type = Some ESLINT_IGNORE_ENTIRE_FILE\<rparr>])
   \<and> py_find_ignores (single_file ''a.py'' [''x = 1  # pylint: disable=\<newline>'']) ''a.py'' = Inr []"
  by code_simp

text \<open>
  Claim C6, amended.  In the eslint scanner a directive whose rule-list argument is empty
  (the first group strips to the empty string) produces a record whose rule is the empty
  string; the report renders that rule as \<open>NA\<close>, exactly as it renders an absent
  rule.  In the pylint scanner no match of the directive pattern has an empty first
  group, so a directive with an empty rule argument produces no record.
\<close>

theorem es_empty_rule_list_gives_empty_rule:
  assumes "lines = pre @ l # post"
    and "es_directive (strip l) = Some m"
    and "group m 1 = Inr (Some g)"
    and "strip g = []"
  shows "(\<exists>rs t.
            es_body fp lines (1 + int (length pre)) l st =
              Inr \<lparr>ignore = Some \<lparr>filepath = fp, start = 1 + int (length pre),
                                   end_line = 1 + int (length pre), rule = Some [],
                                   reason = Some rs, type = Some t\<rparr>,
                   ignores = pending st, debug_log = debug_log st\<rparr>
          \<and> io_bind (es_values \<lparr>filepath = fp, start = 1 + int (length pre),
                                 end_line = 1 + int (length pre), rule = Some [],
                                 reason = Some rs, type = Some t\<rparr>)
                (\<lambda>v. dict_get v ''Rule'') = io_return (PyStr ''NA'')
          \<and> io_bind (es_values \<lparr>filepath = fp, start = 1 + int (length pre),
                                 end_line = 1 + int (length pre), rule = None,
                                 reason = Some rs, type = Some t\<rparr>)
                (\<lambda>v. dict_get v ''Rule'') = io_return (PyStr ''NA''))
       \<and> \<not> (\<exists>s m'. re_match PYLINT_IGNORE_PATTERN s = Some m' \<and> group m' 1 = Inr (Some []))"
proof
  from es_directive_type [OF assms(2)] obtain t where t: "get_ignore_type m = Some t" by blast
  from assms(3,4) have r: "es_rule m = Inr (Some [], [])" by (simp add: es_rule_def)
  from es_body_directive [OF assms(1,2), of fp st] r t
  obtain rs where
    "es_body fp lines (1 + int (length pre)) l st =
              Inr \<lparr>ignore = Some \<lparr>filepath = fp, start = 1 + int (length pre),
                                   end_line = 1 + int (length pre), rule = Some [],
                                   reason = Some rs, type = Some t\<rparr>,
                   ignores = pending st, debug_log = debug_log st\<rparr>"
    by auto
  then show "\<exists>rs t.
            es_body fp lines (1 + int (length pre)) l st =
              Inr \<lparr>ignore = Some \<lparr>filepath = fp, start = 1 + int (length pre),
                                   end_line = 1 + int (length pre), rule = Some [],
                                   reason = Some rs, type = Some t\<rparr>,
                   ignores = pending st, debug_log = debug_log st\<rparr>
          \<and> io_bind (es_values \<lparr>filepath = fp, start = 1 + int (length pre),
                                 end_line = 1 + int (length pre), rule = Some [],
                                 reason = Some rs, type = Some t\<rparr>)
                (\<lambda>v. dict_get v ''Rule'') = io_return (PyStr ''NA'')
          \<and> io_bind (es_values \<lparr>filepath = fp, start = 1 + int (length pre),
                                 end_line = 1 + int (length pre), rule = None,
                                 reason = Some rs, type = Some t\<rparr>)
                (\<lambda>v. dict_get v ''Rule'') = io_return (PyStr ''NA'')"
    by (auto simp: es_values_def dict_get_def)
next
  show "\<not> (\<exists>s m'. re_match PYLINT_IGNORE_PATTERN s = Some m' \<and> group m' 1 = Inr (Some []))"
  proof
    assume "\<exists>s m'. re_match PYLINT_IGNORE_PATTERN s = Some m' \<and> group m' 1 = Inr (Some [])"
    then obtain s m' where "re_match PYLINT_IGNORE_PATTERN s = Some m'" "group m' 1 = Inr (Some [])"
      by blast
    with pylint_group1 [of s m'] show False by auto
  qed
qed

theorem es_empty_rule_list_gives_empty_rule_witness:
  "[''/* eslint-disable */\<newline>''] = [] @ ''/* eslint-disable */\<newline>'' # []
   \<and> es_directive (strip ''/* eslint-disable */\<newline>'')
       = Some \<lparr>re = ESLINT_IGNORE_ENTIRE_FILE_PATTERN, captured = [(1, [])]\<rparr>
   \<and> group \<lparr>re = ESLINT_IGNORE_ENTIRE_FILE_PATTERN, captured = [(1, [])]\<rparr> 1 = Inr (Some [])
   \<and> strip [] = []
   \<and> (\<exists>rs t.
         es_body ''a.js'' [''/* eslint-disable */\<newline>''] 1 ''/* eslint-disable */\<newline>''
           \<lparr>ignore = None, ignores = [], debug_log = []\<rparr> =
           Inr \<lparr>ignore = Some \<lparr>filepath = ''a.js'', start = 1, end_line = 1, rule = Some [],
                                reason = Some rs, type = Some t\<rparr>,
                ignores = [], debug_log = []\<rparr>
       \<and> io_bind (es_values \<lparr>filepath = ''a.js'', start = 1, end_line = 1, rule = Some [],
                              reason = Some rs, type = Some t\<rparr>)
             (\<lambda>v. dict_get v ''Rule'') = io_return (PyStr ''NA''))"
proof -
  let ?l = "''/* eslint-disable */\<newline>''"
  let ?m = "\<lparr>re = ESLINT_IGNORE_ENTIRE_FILE_PATTERN, captured = [(1, [])]\<rparr>"
  let ?st = "\<lparr>ignore = None, ignores = [], debug_log = []\<rparr> :: Ignore scan"
  have h1: "[?l] = [] @ ?l # []" by simp
  have h2: "es_directive (strip ?l) = Some ?m" by code_simp
  have h3: "group ?m 1 = Inr (Some [])" by code_simp
  have h4: "strip [] = []" by (simp add: strip_def)
  from es_empty_rule_list_gives_empty_rule [OF h1 h2 h3 h4, of "''a.js''" ?st]
  have "\<exists>rs t.
         es_body ''a.js'' [?l] 1 ?l ?st =
           Inr \<lparr>ignore = Some \<lparr>filepath = ''a.js'', start = 1, end_line = 1, rule = Some [],
                                reason = Some rs, type = Some t\<rparr>,
                ignores = [], debug_log = []\<rparr>
       \<and> io_bind (es_values \<lparr>filepath = ''a.js'', start = 1, end_line = 1, rule = Some [],
                              reason = Some rs, type = Some t\<rparr>)
             (\<lambda>v. dict_get v ''Rule'') = io_return (PyStr ''NA'')"
    by (auto simp: pending_def)
  with h1 h2 h3 h4 show ?thesis by blast
qed




text \<open>
  Claim C8.  For both scanners, let \<open>st\<close> be the state in which the loop finds the
  lines exhausted.  The scan returns the records closed so far, followed by the buffered
  record when there is one; that record occurs exactly once in the result.  The result
  has one record for each directive line, so none is lost and none is doubled.
\<close>

theorem open_record_appended_once:
  assumes "readlines fs fp = Some lines"
  shows "(\<exists>st. run_body (es_body fp lines) (enumerate_from 1 lines)
                 \<lparr>ignore = None, ignores = [], debug_log = []\<rparr> = Inr st
            \<and> (case ignore st of
                  None \<Rightarrow> es_find_ignores fs fp = Inr (debug_log st, ignores st)
                | Some ig \<Rightarrow> es_find_ignores fs fp = Inr (debug_log st, ignores st @ [ig])
                            \<and> count_list (ignores st @ [ig]) ig = 1)
            \<and> length (pending st) = length (filter (\<lambda>l. es_directive (strip l) \<noteq> None) lines))
       \<and> (\<exists>st. run_body (py_body fp lines) (enumerate_from 1 lines)
                 \<lparr>ignore = None, ignores = [], debug_log = []\<rparr> = Inr st
            \<and> (case ignore st of
                  None \<Rightarrow> py_find_ignores fs fp = Inr (ignores st)
                | Some ig \<Rightarrow> py_find_ignores fs fp = Inr (ignores st @ [ig])
                            \<and> count_list (ignores st @ [ig]) ig = 1)
            \<and> length (pending st) =
                length (filter (\<lambda>l. re_match PYLINT_IGNORE_PATTERN (strip l) \<noteq> None) lines))"
proof
  from es_run_spans [of fp lines] obtain st where
    r: "run_body (es_body fp lines) (enumerate_from 1 lines)
            \<lparr>ignore = None, ignores = [], debug_log = []\<rparr> = Inr st"
    and s: "spans_ok (1 + int (length lines)) (map (\<lambda>ig. (start ig, end_line ig)) (pending st))"
    and n: "length (pending st) = length (filter (\<lambda>l. es_directive (strip l) \<noteq> None) lines)"
    by blast
  have "case ignore st of
          None \<Rightarrow> es_find_ignores fs fp = Inr (debug_log st, ignores st)
        | Some ig \<Rightarrow> es_find_ignores fs fp = Inr (debug_log st, ignores st @ [ig])
                    \<and> count_list (ignores st @ [ig]) ig = 1"
  proof (cases "ignore st")
    case None
    with es_find_ignores_run [OF assms r] show ?thesis by (simp add: pending_def)
  next
    case (Some ig)
    then have p: "pending st = ignores st @ [ig]" by (simp add: pending_def)
    from s spans_ok_last_fresh [of _ "\<lambda>ig. (start ig, end_line ig)" "ignores st" ig]
    have "count_list (ignores st @ [ig]) ig = 1" unfolding p by blast
    with es_find_ignores_run [OF assms r] Some p show ?thesis by simp
  qed
  with r n show "\<exists>st. run_body (es_body fp lines) (enumerate_from 1 lines)
                 \<lparr>ignore = None, ignores = [], debug_log = []\<rparr> = Inr st
            \<and> (case ignore st of
                  None \<Rightarrow> es_find_ignores fs fp = Inr (debug_log st, ignores st)
                | Some ig \<Rightarrow> es_find_ignores fs fp = Inr (debug_log st, ignores st @ [ig])
                            \<and> count_list (ignores st @ [ig]) ig = 1)
            \<and> length (pending st) = length (filter (\<lambda>l. es_directive (strip l) \<noteq> None) lines)"
    by blast
next
  from py_run_spans [of fp lines] obtain st where
    r: "run_body (py_body fp lines) (enumerate_from 1 lines)
            \<lparr>ignore = None, ignores = [], debug_log = []\<rparr> = Inr st"
    and s: "spans_ok (1 + int (length lines)) (map (\<lambda>ig. (py_start ig, py_end ig)) (pending st))"
    and n: "length (pending st) =
        length (filter (\<lambda>l. re_match PYLINT_IGNORE_PATTERN (strip l) \<noteq> None) lines)"
    by blast
  have "case ignore st of
          None \<Rightarrow> py_find_ignores fs fp = Inr (ignores st)
        | Some ig \<Rightarrow> py_find_ignores fs fp = Inr (ignores st @ [ig])
                    \<and> count_list (ignores st @ [ig]) ig = 1"
  proof (cases "ignore st")
    case None
    with py_find_ignores_run [OF assms r] show ?thesis by (simp add: pending_def)
  next
    case (Some ig)
    then have p: "pending st = ignores st @ [ig]" by (simp add: pending_def)
    from s spans_ok_last_fresh [of _ "\<lambda>ig. (py_start ig, py_end ig)" "ignores st" ig]
    have "count_list (ignores st @ [ig]) ig = 1" unfolding p by blast
    with py_find_ignores_run [OF assms r] Some p show ?thesis by simp
  qed
  with r n show "\<exists>st. run_body (py_body fp lines) (enumerate_from 1 lines)
                 \<lparr>ignore = None, ignores = [], debug_log = []\<rparr> = Inr st
            \<and> (case ignore st of
                  None \<Rightarrow> py_find_ignores fs fp = Inr (ignores st)
                | Some ig \<Rightarrow> py_find_ignores fs fp = Inr (ignores st @ [ig])
                            \<and> count_list (ignores st @ [ig]) ig = 1)
            \<and> length (pending st) =
                length (filter (\<lambda>l. re_match PYLINT_IGNORE_PATTERN (strip l) \<noteq> None) lines)"
    by blast
qed

theorem open_record_appended_once_witness:
  "readlines (single_file ''a'' [''x\<newline>'', ''x = 1  # pylint: disable=a // eslint-disable-line'']) ''a''
     = Some [''x\<newline>'', ''x = 1  # pylint: disable=a // eslint-disable-line'']
   \<and> ((\<exists>st. run_body (es_body ''a'' [''x\<newline>'', ''x = 1  # pylint: disable=a // eslint-disable-line''])
                 (enumerate_from 1 [''x\<newline>'', ''x = 1  # pylint: disable=a // eslint-disable-line''])
                 \<lparr>ignore = None, ignores = [], debug_log = []\<rparr> = Inr st
            \<and> (case ignore st of
                  None \<Rightarrow> es_find_ignores (single_file ''a'' [''x\<newline>'', ''x = 1  # pylint: disable=a // eslint-disable-line'']) ''a''
                            = Inr (debug_log st, ignores st)
                | Some ig \<Rightarrow> es_find_ignores (single_file ''a'' [''x\<newline>'', ''x = 1  # pylint: disable=a // eslint-disable-line'']) ''a''
                               = Inr (debug_log st, ignores st @ [ig])
                            \<and> count_list (ignores st @ [ig]) ig = 1)
            \<and> length (pending st) = length (filter (\<lambda>l. es_directive (strip l) \<noteq> None)
                 [''x\<newline>'', ''x = 1  # pylint: disable=a // eslint-disable-line'']))
       \<and> (\<exists>st. run_body (py_body ''a'' [''x\<newline>'', ''x = 1  # pylint: disable=a // eslint-disable-line''])
                 (enumerate_from 1 [''x\<newline>'', ''x = 1  # pylint: disable=a // eslint-disable-line''])
                 \<lparr>ignore = None, ignores = [], debug_log = []\<rparr> = Inr st
            \<and> (case ignore st of
                  None \<Rightarrow> py_find_ignores (single_file ''a'' [''x\<newline>'', ''x = 1  # pylint: disable=a // eslint-disable-line'']) ''a''
                            = Inr (ignores st)
                | Some ig \<Rightarrow> py_find_ignores (single_file ''a'' [''x\<newline>'', ''x = 1  # pylint: disable=a // eslint-disable-line'']) ''a''
                               = Inr (ignores st @ [ig])
                            \<and> count_list (ignores st @ [ig]) ig = 1)
            \<and> length (pending st) =
                length (filter (\<lambda>l. re_match PYLINT_IGNORE_PATTERN (strip l) \<noteq> None)
                  [''x\<newline>'', ''x = 1  # pylint: disable=a // eslint-disable-line''])))"
proof -
  have h: "readlines (single_file ''a'' [''x\<newline>'', ''x = 1  # pylint: disable=a // eslint-disable-line'']) ''a''
     = Some [''x\<newline>'', ''x = 1  # pylint: disable=a // eslint-disable-line'']"
    by (simp add: single_file_def)
  from h open_record_appended_once [OF h] show ?thesis by (rule conjI)
qed

text \<open>
  Claim C9.  Every record the pylint scanner returns carries an issue, a non-empty
  string over the class \<open>[a-zA-Z-]\<close>.  A directive with an empty argument does not
  match the pattern, and a file holding only such a line yields no record.
\<close>

theorem pylint_records_name_an_issue:
  assumes "readlines fs fp = Some lines"
  shows "(\<exists>out. py_find_ignores fs fp = Inr out
            \<and> list_all (\<lambda>r. case issue r of
                                None \<Rightarrow> False
                              | Some w \<Rightarrow> w \<noteq> [] \<and> list_all (in_class issue_chars) w) out)
       \<and> re_match PYLINT_IGNORE_PATTERN ''# pylint: disable='' = None
       \<and> py_find_ignores (single_file fp [''x = 1  # pylint: disable=\<newline>'']) fp = Inr []"
proof -
  from py_run_issue [of fp lines] obtain st where
    r: "run_body (py_body fp lines) (enumerate_from 1 lines)
            \<lparr>ignore = None, ignores = [], debug_log = []\<rparr> = Inr st"
    and i: "list_all issue_ok (pending st)"
    by blast
  from i have "list_all (\<lambda>r. case issue r of
                                None \<Rightarrow> False
                              | Some w \<Rightarrow> w \<noteq> [] \<and> list_all (in_class issue_chars) w) (pending st)"
    by (simp add: issue_ok_def list_all_iff)
  with py_find_ignores_run [OF assms r]
  have 1: "\<exists>out. py_find_ignores fs fp = Inr out
            \<and> list_all (\<lambda>r. case issue r of
                                None \<Rightarrow> False
                              | Some w \<Rightarrow> w \<noteq> [] \<and> list_all (in_class issue_chars) w) out"
    by simp
  have 2: "re_match PYLINT_IGNORE_PATTERN ''# pylint: disable='' = None"
    by code_simp
  have 3: "py_find_ignores (single_file fp [''x = 1  # pylint: disable=\<newline>'']) fp = Inr []"
  proof -
    have "re_match PYLINT_IGNORE_PATTERN (strip ''x = 1  # pylint: disable=\<newline>'') = None"
      by code_simp
    moreover have "re_match PYTHON_COMMENT_PATTERN (strip ''x = 1  # pylint: disable=\<newline>'') = None"
      by code_simp
    ultimately show ?thesis
      by (simp add: py_find_ignores_def single_file_def py_body_def)
  qed
  from 1 2 3 show ?thesis by simp
qed

theorem pylint_records_name_an_issue_witness:
  "readlines (single_file ''a.py'' [''x = 1  # pylint: disable=invalid-name\<newline>'']) ''a.py''
     = Some [''x = 1  # pylint: disable=invalid-name\<newline>'']
   \<and> ((\<exists>out. py_find_ignores (single_file ''a.py'' [''x = 1  # pylint: disable=invalid-name\<newline>'']) ''a.py'' = Inr out
            \<and> list_all (\<lambda>r. case issue r of
                                None \<Rightarrow> False
                              | Some w \<Rightarrow> w \<noteq> [] \<and> list_all (in_class issue_chars) w) out)
       \<and> re_match PYLINT_IGNORE_PATTERN ''# pylint: disable='' = None
       \<and> py_find_ignores (single_file ''a.py'' [''x = 1  # pylint: disable=\<newline>'']) ''a.py'' = Inr [])"
proof -
  have h: "readlines (single_file ''a.py'' [''x = 1  # pylint: disable=invalid-name\<newline>'']) ''a.py''
     = Some [''x = 1  # pylint: disable=invalid-name\<newline>'']"
    by (simp add: single_file_def)
  from h pylint_records_name_an_issue [OF h] show ?thesis by (rule conjI)
qed

text \<open>
  Claim C10.  For both scanners the records returned for one file are ordered by
  strictly increasing \<open>start\<close>, every record has \<open>start \<le> end\<close>, and each
  record starts after every earlier record has ended, so the spans are pairwise disjoint.
  The scan of a readable file raises nothing.
\<close>

theorem spans_ordered_and_disjoint:
  assumes "readlines fs fp = Some lines"
  shows "(\<exists>lg out. es_find_ignores fs fp = Inr (lg, out)
            \<and> sorted_wrt (\<lambda>a b. start a < start b) out
            \<and> list_all (\<lambda>r. start r \<le> end_line r) out
            \<and> sorted_wrt (\<lambda>a b. end_line a < start b) out)
       \<and> (\<exists>out. py_find_ignores fs fp = Inr out
            \<and> sorted_wrt (\<lambda>a b. py_start a < py_start b) out
            \<and> list_all (\<lambda>r. py_start r \<le> py_end r) out
            \<and> sorted_wrt (\<lambda>a b. py_end a < py_start b) out)"
proof
  from es_run_spans [of fp lines] obtain st where
    r: "run_body (es_body fp lines) (enumerate_from 1 lines)
            \<lparr>ignore = None, ignores = [], debug_log = []\<rparr> = Inr st"
    and s: "spans_ok (1 + int (length lines)) (map (\<lambda>ig. (start ig, end_line ig)) (pending st))"
    by blast
  from spans_ok_props [OF s] es_find_ignores_run [OF assms r]
  show "\<exists>lg out. es_find_ignores fs fp = Inr (lg, out)
            \<and> sorted_wrt (\<lambda>a b. start a < start b) out
            \<and> list_all (\<lambda>r. start r \<le> end_line r) out
            \<and> sorted_wrt (\<lambda>a b. end_line a < start b) out"
    by simp
next
  from py_run_spans [of fp lines] obtain st where
    r: "run_body (py_body fp lines) (enumerate_from 1 lines)
            \<lparr>ignore = None, ignores = [], debug_log = []\<rparr> = Inr st"
    and s: "spans_ok (1 + int (length lines)) (map (\<lambda>ig. (py_start ig, py_end ig)) (pending st))"
    by blast
  from spans_ok_props [OF s] py_find_ignores_run [OF assms r]
  show "\<exists>out. py_find_ignores fs fp = Inr out
            \<and> sorted_wrt (\<lambda>a b. py_start a < py_start b) out
            \<and> list_all (\<lambda>r. py_start r \<le> py_end r) out
            \<and> sorted_wrt (\<lambda>a b. py_end a < py_start b) out"
    by simp
qed

theorem spans_ordered_and_disjoint_witness:
  "readlines (single_file ''a'' [''// eslint-disable-line\<newline>'', ''# pylint: disable=a\<newline>'', ''# b\<newline>'']) ''a''
     = Some [''// eslint-disable-line\<newline>'', ''# pylint: disable=a\<newline>'', ''# b\<newline>'']
   \<and> ((\<exists>lg out. es_find_ignores (single_file ''a'' [''// eslint-disable-line\<newline>'', ''# pylint: disable=a\<newline>'', ''# b\<newline>'']) ''a'' = Inr (lg, out)
            \<and> sorted_wrt (\<lambda>a b. start a < start b) out
            \<and> list_all (\<lambda>r. start r \<le> end_line r) out
            \<and> sorted_wrt (\<lambda>a b. end_line a < start b) out)
       \<and> (\<exists>out. py_find_ignores (single_file ''a'' [''// eslint-disable-line\<newline>'', ''# pylint: disable=a\<newline>'', ''# b\<newline>'']) ''a'' = Inr out
            \<and> sorted_wrt (\<lambda>a b. py_start a < py_start b) out
            \<and> list_all (\<lambda>r. py_start r \<le> py_end r) out
            \<and> sorted_wrt (\<lambda>a b. py_end a < py_start b) out))"
proof -
  have h: "readlines (single_file ''a'' [''// eslint-disable-line\<newline>'', ''# pylint: disable=a\<newline>'', ''# b\<newline>'']) ''a''
     = Some [''// eslint-disable-line\<newline>'', ''# pylint: disable=a\<newline>'', ''# b\<newline>'']"
    by (simp add: single_file_def)
  from h spans_ordered_and_disjoint [OF h] show ?thesis by (rule conjI)
qed

end
